theory Spec2Isabelle
  imports Complex_Main "HOL-Library.Sublist"
begin

section \<open>Fragments of the JavaScript runtime used by the action handlers\<close>

text \<open>
  The handlers are TypeScript functions running on a JavaScript engine. Strings are
  modelled as \<open>string\<close> (the sources' literals and patterns are ASCII; code units
  above 255 are not represented); a number is an IEEE-754 double, modelled as \<open>NaN\<close>, one of
  the two infinities, or a finite value carried as the rational it denotes (the two
  zeros are identified). Rounding of an exact result to the nearest double is a
  parameter \<open>rnd\<close> of every operation that rounds, so nothing below depends on how the
  engine rounds.
\<close>

datatype jsnum = NaN | NInf | Fin rat | PInf

text \<open>The relational operators \<open><\<close> and \<open>>\<close> on numbers: every comparison with \<open>NaN\<close> is false.\<close>

fun num_lt :: "jsnum \<Rightarrow> jsnum \<Rightarrow> bool" where
  "num_lt NaN _ = False"
| "num_lt _ NaN = False"
| "num_lt PInf _ = False"
| "num_lt _ NInf = False"
| "num_lt NInf _ = True"
| "num_lt _ PInf = True"
| "num_lt (Fin a) (Fin b) = (a < b)"

definition num_gt :: "jsnum \<Rightarrow> jsnum \<Rightarrow> bool" where
  "num_gt a b = num_lt b a"

text \<open>\<open>a <= b\<close> in JavaScript (not the negation of \<open>a > b\<close>: both are false on \<open>NaN\<close>).\<close>

fun num_le :: "jsnum \<Rightarrow> jsnum \<Rightarrow> bool" where
  "num_le NaN _ = False"
| "num_le _ NaN = False"
| "num_le NInf _ = True"
| "num_le _ PInf = True"
| "num_le PInf _ = False"
| "num_le _ NInf = False"
| "num_le (Fin a) (Fin b) = (a \<le> b)"

text \<open>Arithmetic. Only \<open>+\<close>, \<open>-\<close>, \<open>*\<close> and \<open>/\<close> occur in the handlers; \<open>a + b\<close> is \<open>a - (-b)\<close>.\<close>

fun num_neg :: "jsnum \<Rightarrow> jsnum" where
  "num_neg NaN = NaN"
| "num_neg NInf = PInf"
| "num_neg PInf = NInf"
| "num_neg (Fin a) = Fin (- a)"

fun num_sub :: "(rat \<Rightarrow> jsnum) \<Rightarrow> jsnum \<Rightarrow> jsnum \<Rightarrow> jsnum" where
  "num_sub rnd NaN _ = NaN"
| "num_sub rnd _ NaN = NaN"
| "num_sub rnd PInf PInf = NaN"
| "num_sub rnd NInf NInf = NaN"
| "num_sub rnd PInf _ = PInf"
| "num_sub rnd NInf _ = NInf"
| "num_sub rnd (Fin a) PInf = NInf"
| "num_sub rnd (Fin a) NInf = PInf"
| "num_sub rnd (Fin a) (Fin b) = rnd (a - b)"

definition num_sign :: "jsnum \<Rightarrow> rat" where
  "num_sign x = (case x of NaN \<Rightarrow> 0 | NInf \<Rightarrow> - 1 | PInf \<Rightarrow> 1 | Fin a \<Rightarrow> sgn a)"

definition num_mul :: "(rat \<Rightarrow> jsnum) \<Rightarrow> jsnum \<Rightarrow> jsnum \<Rightarrow> jsnum" where
  "num_mul rnd x y =
     (case (x, y) of
        (Fin a, Fin b) \<Rightarrow> rnd (a * b)
      | _ \<Rightarrow> (if x = NaN \<or> y = NaN \<or> num_sign x * num_sign y = 0 then NaN
              else if num_sign x * num_sign y < 0 then NInf else PInf))"

text \<open>
  Division by a finite non-zero number, the only form the handlers use (the divisors
  are the literals 100 and 1000).
\<close>

definition num_div :: "(rat \<Rightarrow> jsnum) \<Rightarrow> jsnum \<Rightarrow> rat \<Rightarrow> jsnum" where
  "num_div rnd x d =
     (case x of
        Fin a \<Rightarrow> rnd (a / d)
      | NaN \<Rightarrow> NaN
      | _ \<Rightarrow> (if num_sign x * sgn d < 0 then NInf else PInf))"

text \<open>\<open>Math.floor\<close>: the floor of a double is a double, so no rounding happens.\<close>

definition Math_floor :: "jsnum \<Rightarrow> jsnum" where
  "Math_floor x = (case x of Fin a \<Rightarrow> Fin (of_int \<lfloor>a\<rfloor>) | _ \<Rightarrow> x)"

subsection \<open>Thrown values\<close>

text \<open>
  A thrown value is either an \<open>Error\<close> object (its \<open>name\<close> and \<open>message\<close>) or any
  other value, kept as the text \<open>String(v)\<close> gives for it. Every call that can throw
  returns \<open>thrown + 'a\<close>.
\<close>

datatype thrown = ErrorObj (err_name: string) (err_message: string) | NonError string

definition new_Error :: "string \<Rightarrow> thrown" where
  "new_Error m = ErrorObj ''Error'' m"

text \<open>\<open>error instanceof Error\<close>\<close>

fun instanceof_Error :: "thrown \<Rightarrow> bool" where
  "instanceof_Error (ErrorObj _ _) = True"
| "instanceof_Error (NonError _) = False"

text \<open>\<open>`${error}`\<close>: for an \<open>Error\<close> this is \<open>Error.prototype.toString\<close>.\<close>

fun thrown_to_string :: "thrown \<Rightarrow> string" where
  "thrown_to_string (ErrorObj n m) = (if n = [] then m else if m = [] then n else n @ '': '' @ m)"
| "thrown_to_string (NonError s) = s"

text \<open>\<open>String.prototype.includes\<close>: the argument occurs as a contiguous substring.\<close>

definition str_includes :: "string \<Rightarrow> string \<Rightarrow> bool" where
  "str_includes s t = sublist t s"

subsection \<open>Conversions between strings and numbers\<close>

definition is_ws :: "char \<Rightarrow> bool" where
  "is_ws c = (of_char c \<in> {9::nat, 10, 11, 12, 13, 32, 160})"

definition trim :: "string \<Rightarrow> string" where
  "trim s = rev (dropWhile is_ws (rev (dropWhile is_ws s)))"

definition digit_in :: "nat \<Rightarrow> char \<Rightarrow> nat option" where
  "digit_in b c =
     (let n = of_char c :: nat;
          v = (if 48 \<le> n \<and> n \<le> 57 then Some (n - 48)
               else if 97 \<le> n \<and> n \<le> 102 then Some (n - 87)
               else if 65 \<le> n \<and> n \<le> 70 then Some (n - 55)
               else None)
      in case v of None \<Rightarrow> None | Some d \<Rightarrow> if d < b then Some d else None)"

fun digits_val :: "nat \<Rightarrow> nat \<Rightarrow> string \<Rightarrow> nat option" where
  "digits_val b acc [] = Some acc"
| "digits_val b acc (c # cs) =
     (case digit_in b c of None \<Rightarrow> None | Some d \<Rightarrow> digits_val b (acc * b + d) cs)"

definition parse_digits :: "nat \<Rightarrow> string \<Rightarrow> nat option" where
  "parse_digits b s = (if s = [] then None else digits_val b 0 s)"

text \<open>\<open>0x\<close>, \<open>0o\<close> and \<open>0b\<close> literals (either case of the letter), which take no sign.\<close>

definition parse_nondecimal :: "string \<Rightarrow> nat option" where
  "parse_nondecimal s =
     (if take 2 s \<in> {''0x'', ''0X''} then parse_digits 16 (drop 2 s)
      else if take 2 s \<in> {''0o'', ''0O''} then parse_digits 8 (drop 2 s)
      else if take 2 s \<in> {''0b'', ''0B''} then parse_digits 2 (drop 2 s)
      else None)"

definition split_at :: "(char \<Rightarrow> bool) \<Rightarrow> string \<Rightarrow> string \<times> string option" where
  "split_at p s =
     (let r = dropWhile (\<lambda>c. \<not> p c) s
      in (takeWhile (\<lambda>c. \<not> p c) s, if r = [] then None else Some (tl r)))"

definition parse_sign :: "string \<Rightarrow> rat \<times> string" where
  "parse_sign s =
     (if s \<noteq> [] \<and> hd s = CHR ''+'' then (1, tl s)
      else if s \<noteq> [] \<and> hd s = CHR ''-'' then (- 1, tl s)
      else (1, s))"

text \<open>The exponent part after \<open>e\<close> or \<open>E\<close>: an optional sign and at least one digit.\<close>

definition parse_exponent :: "string option \<Rightarrow> rat option" where
  "parse_exponent ex =
     (case ex of
        None \<Rightarrow> Some 1
      | Some e \<Rightarrow>
          (let (sg, ds) = parse_sign e
           in case parse_digits 10 ds of
                None \<Rightarrow> None
              | Some n \<Rightarrow> Some (if sg < 0 then 1 / 10 ^ n else 10 ^ n)))"

text \<open>
  The mantissa: digits, digits with a dot and optional digits, or a dot with digits.
\<close>

definition parse_mantissa :: "string \<Rightarrow> rat option" where
  "parse_mantissa m =
     (case split_at (\<lambda>c. c = CHR ''.'') m of
        (ip, None) \<Rightarrow> map_option of_nat (parse_digits 10 ip)
      | (ip, Some fp) \<Rightarrow>
          (if ip = [] \<and> fp = [] then None
           else case (digits_val 10 0 ip, digits_val 10 0 fp) of
                  (Some i, Some f) \<Rightarrow> Some (of_nat i + of_nat f / 10 ^ length fp)
                | _ \<Rightarrow> None))"

definition parse_unsigned_decimal :: "string \<Rightarrow> rat option" where
  "parse_unsigned_decimal u =
     (case split_at (\<lambda>c. c = CHR ''e'' \<or> c = CHR ''E'') u of
        (m, ex) \<Rightarrow>
          (case (parse_mantissa m, parse_exponent ex) of
             (Some q, Some k) \<Rightarrow> Some (q * k)
           | _ \<Rightarrow> None))"

text \<open>
  \<open>Number(s)\<close> on a string: surrounding white space is dropped, the empty string is 0,
  and a string that is not a numeric literal is \<open>NaN\<close>.
\<close>

definition Number :: "(rat \<Rightarrow> jsnum) \<Rightarrow> string \<Rightarrow> jsnum" where
  "Number rnd s =
     (let t = trim s
      in if t = [] then Fin 0
         else case parse_nondecimal t of
                Some n \<Rightarrow> rnd (of_nat n)
              | None \<Rightarrow>
                  (let (sg, u) = parse_sign t
                   in if u = ''Infinity'' then (if sg < 0 then NInf else PInf)
                      else case parse_unsigned_decimal u of
                             None \<Rightarrow> NaN
                           | Some q \<Rightarrow> rnd (sg * q)))"

text \<open>
  \<open>BigInt(x)\<close> on a number throws a \<open>RangeError\<close> unless \<open>x\<close> is an integer; the
  message quotes the number, rendered by the engine's \<open>Number::toString\<close>, a
  parameter \<open>shw\<close>.
\<close>

definition BigInt :: "(jsnum \<Rightarrow> string) \<Rightarrow> jsnum \<Rightarrow> thrown + int" where
  "BigInt shw x =
     (let err = Inl (ErrorObj ''RangeError''
                  (''The number '' @ shw x @
                   '' cannot be converted to a BigInt because it is not an integer''))
      in case x of
           Fin a \<Rightarrow> if a = of_int \<lfloor>a\<rfloor> then Inr \<lfloor>a\<rfloor> else err
         | _ \<Rightarrow> err)"

text \<open>Decimal rendering of a \<open>BigInt\<close> in a template literal.\<close>

fun show_nat :: "nat \<Rightarrow> string" where
  "show_nat n =
     (if n < 10 then [char_of (48 + n)] else show_nat (n div 10) @ [char_of (48 + n mod 10)])"

declare show_nat.simps [simp del]

definition show_int :: "int \<Rightarrow> string" where
  "show_int i = (if i < 0 then CHR ''-'' # show_nat (nat (- i)) else show_nat (nat i))"

text \<open>Truthiness of an optional number and of an optional string (\<open>!amount\<close>, \<open>!user_address\<close>).\<close>

definition falsy_num :: "jsnum option \<Rightarrow> bool" where
  "falsy_num a = (case a of None \<Rightarrow> True | Some x \<Rightarrow> x = NaN \<or> x = Fin 0)"

definition falsy_str :: "string option \<Rightarrow> bool" where
  "falsy_str s = (case s of None \<Rightarrow> True | Some x \<Rightarrow> x = [])"

section \<open>Regular expressions\<close>

text \<open>
  The fragment of regular expressions the schemas use: a literal character, a character
  class given by ranges, concatenation and bounded repetition \<open>r{n}\<close>, with optional
  anchors \<open>^\<close> and \<open>$\<close> (no flags, so \<open>$\<close> matches at the very end only).
  \<open>rx_run r s\<close> lists what is left of \<open>s\<close> after each way \<open>r\<close> matches a prefix.
\<close>

datatype rx = RChr char | RSet "(char \<times> char) list" | RSeq rx rx | RRep nat rx

definition in_range :: "char \<Rightarrow> char \<times> char \<Rightarrow> bool" where
  "in_range c r = ((of_char (fst r) :: nat) \<le> of_char c \<and> (of_char c :: nat) \<le> of_char (snd r))"

function rx_run :: "rx \<Rightarrow> string \<Rightarrow> string list" where
  "rx_run (RChr c) s = (case s of [] \<Rightarrow> [] | x # xs \<Rightarrow> if x = c then [xs] else [])"
| "rx_run (RSet rs) s = (case s of [] \<Rightarrow> [] | x # xs \<Rightarrow> if list_ex (in_range x) rs then [xs] else [])"
| "rx_run (RSeq a b) s = concat (map (rx_run b) (rx_run a s))"
| "rx_run (RRep 0 a) s = [s]"
| "rx_run (RRep (Suc n) a) s = concat (map (rx_run (RRep n a)) (rx_run a s))"
  by pat_completeness auto
termination
  by (relation "inv_image (less_than <*lex*> less_than)
        (\<lambda>(r, s). (size r, case r of RRep n _ \<Rightarrow> n | _ \<Rightarrow> 0))") auto

record regex =
  anchored_start :: bool
  body :: rx
  anchored_end :: bool

text \<open>\<open>RegExp.prototype.test\<close> on a regular expression without flags.\<close>

definition regex_test :: "regex \<Rightarrow> string \<Rightarrow> bool" where
  "regex_test re s =
     list_ex (\<lambda>t. list_ex (\<lambda>rest. if anchored_end re then rest = [] else True) (rx_run (body re) t))
       (if anchored_start re then [s] else suffixes s)"

text \<open>\<open>/^0x[a-fA-F0-9]{40}$/\<close>, which occurs four times in the sources.\<close>

definition ADDRESS_RE :: regex where
  "ADDRESS_RE =
     \<lparr>anchored_start = True,
      body = RSeq (RChr CHR ''0'') (RSeq (RChr CHR ''x'')
               (RRep 40 (RSet [(CHR ''a'', CHR ''f''), (CHR ''A'', CHR ''F''), (CHR ''0'', CHR ''9'')]))),
      anchored_end = True\<rparr>"

section \<open>Values and input schemas\<close>

text \<open>
  Values that cross the boundary of a handler: the raw tool input, and whatever the
  blockchain SDK hands back. \<open>JRef\<close> is an object owned by the SDK (a wallet, a
  contract, a transaction).
\<close>

datatype jsval =
    Undefined | Null | JBool bool | JNum jsnum | JBig int | JStr string
  | JArr "jsval list" | JObj "(string \<times> jsval) list" | JRef nat

text \<open>Reading a property of a plain object; a missing key is \<open>undefined\<close>.\<close>

definition get_prop :: "jsval \<Rightarrow> string \<Rightarrow> jsval" where
  "get_prop v k = (case v of JObj kvs \<Rightarrow> (case map_of kvs k of Some x \<Rightarrow> x | None \<Rightarrow> Undefined) | _ \<Rightarrow> Undefined)"

text \<open>
  The schemas are built with the zod library. A schema is data; \<open>safeParse\<close> is the
  library's interpretation of it. The checks that occur: on strings a regular
  expression, a refinement by an arbitrary predicate with its message, and \<open>.url()\<close>
  (whose URL parser is a parameter of the check); on numbers inclusive bounds with an
  optional message.
\<close>

datatype issue =
    InvalidType | InvalidString | InvalidUrl | InvalidEnumValue | TooSmall | TooBig | Custom string

datatype str_check = Regex regex | Refine "string \<Rightarrow> bool" string | Url "string \<Rightarrow> bool"

datatype num_check = Min jsnum "string option" | Max jsnum "string option"

datatype zschema =
    ZString "str_check list"
  | ZNumber "num_check list"
  | ZEnum "string list"
  | ZCustom
  | ZOptional zschema
  | ZObject "(string \<times> zschema) list"

fun str_issue :: "string \<Rightarrow> str_check \<Rightarrow> issue list" where
  "str_issue s (Regex re) = (if regex_test re s then [] else [InvalidString])"
| "str_issue s (Refine p msg) = (if p s then [] else [Custom msg])"
| "str_issue s (Url ok) = (if ok s then [] else [InvalidUrl])"

definition with_message :: "issue \<Rightarrow> string option \<Rightarrow> issue" where
  "with_message d m = (case m of None \<Rightarrow> d | Some t \<Rightarrow> Custom t)"

text \<open>\<open>.min(v)\<close> fails when \<open>x < v\<close> and \<open>.max(v)\<close> when \<open>x > v\<close>.\<close>

fun num_issue :: "jsnum \<Rightarrow> num_check \<Rightarrow> issue list" where
  "num_issue x (Min v m) = (if num_lt x v then [with_message TooSmall m] else [])"
| "num_issue x (Max v m) = (if num_gt x v then [with_message TooBig m] else [])"

text \<open>
  \<open>safeParse\<close> returns the issues, or the parsed value. \<open>z.number()\<close> does not take
  \<open>NaN\<close>; \<open>z.custom()\<close> without a check takes every value; an object schema reads
  each declared key and drops the others (\<open>.strip()\<close>, the default).
\<close>

fun safeParse :: "zschema \<Rightarrow> jsval \<Rightarrow> issue list + jsval" where
  "safeParse (ZString cs) v =
     (case v of
        JStr s \<Rightarrow> (let is = concat (map (str_issue s) cs) in if is = [] then Inr v else Inl is)
      | _ \<Rightarrow> Inl [InvalidType])"
| "safeParse (ZNumber cs) v =
     (case v of
        JNum x \<Rightarrow>
          (if x = NaN then Inl [InvalidType]
           else let is = concat (map (num_issue x) cs) in if is = [] then Inr v else Inl is)
      | _ \<Rightarrow> Inl [InvalidType])"
| "safeParse (ZEnum vs) v =
     (case v of
        JStr s \<Rightarrow> if s \<in> set vs then Inr v else Inl [InvalidEnumValue]
      | _ \<Rightarrow> Inl [InvalidType])"
| "safeParse ZCustom v = Inr v"
| "safeParse (ZOptional sc) v = (if v = Undefined then Inr Undefined else safeParse sc v)"
| "safeParse (ZObject fs) v =
     (case v of
        JObj kvs \<Rightarrow>
          (let rs = map (\<lambda>(k, sc). (k, safeParse sc (get_prop v k))) fs;
               is = concat (map (\<lambda>(k, r). case r of Inl e \<Rightarrow> e | Inr _ \<Rightarrow> []) rs)
           in if is = []
              then Inr (JObj (concat (map (\<lambda>(k, r). case r of
                                  Inr x \<Rightarrow> (if x = Undefined \<and> map_of kvs k = None then [] else [(k, x)])
                                | Inl _ \<Rightarrow> []) rs)))
              else Inl is)
      | _ \<Rightarrow> Inl [InvalidType])"

definition accepts :: "zschema \<Rightarrow> jsval \<Rightarrow> bool" where
  "accepts sc v = (case safeParse sc v of Inr _ \<Rightarrow> True | Inl _ \<Rightarrow> False)"

text \<open>The schema declared for one key of an object schema.\<close>

definition field_schema :: "zschema \<Rightarrow> string \<Rightarrow> zschema option" where
  "field_schema sc k = (case sc of ZObject fs \<Rightarrow> map_of fs k | _ \<Rightarrow> None)"

section \<open>The input schemas of the four actions\<close>

text \<open>
  \<open>CreateVaultInput\<close> (gorilli\_create\_vault.ts). Both address fields are refined by
  \<open>val => /^0x[a-fA-F0-9]{40}$/.test(val)\<close>.
\<close>

definition CreateVaultInput :: zschema where
  "CreateVaultInput = ZObject
     [(''name'', ZString []),
      (''symbol'', ZString []),
      (''assetAddress'', ZString [Refine (\<lambda>val. regex_test ADDRESS_RE val) ''Invalid Ethereum address format'']),
      (''feeRecipient'', ZString [Refine (\<lambda>val. regex_test ADDRESS_RE val) ''Invalid Ethereum address format'']),
      (''depositFee'', ZNumber [Min (Fin 0) (Some ''Deposit fee cannot be less than 0''),
                               Max (Fin 100) (Some ''Deposit fee cannot be more than 100'')]),
      (''withdrawalFee'', ZNumber [Min (Fin 0) (Some ''Withdrawal fee cannot be less than 0''),
                                  Max (Fin 100) (Some ''Withdrawal fee cannot be more than 100'')])]"

text \<open>\<open>GorilliTradeInput\<close>: \<open>amount\<close> is \<open>z.custom<Amount>()\<close>, which checks nothing.\<close>

definition GorilliTradeInput :: zschema where
  "GorilliTradeInput = ZObject
     [(''amount'', ZCustom), (''fromAssetId'', ZString []), (''toAssetId'', ZString [])]"

text \<open>
  The number literal \<open>0.1\<close> denotes the double nearest to one tenth, which is
  \<open>3602879701896397 / 2^55\<close>, a little above it.
\<close>

definition DOUBLE_0_1 :: rat where
  "DOUBLE_0_1 = 3602879701896397 / 2 ^ 55"

definition GorilliMemeTradeInput :: zschema where
  "GorilliMemeTradeInput = ZObject
     [(''action'', ZEnum [''BUY'', ''SELL'']),
      (''amountIn'', ZString []),
      (''slippagePercentage'', ZNumber [Min (Fin DOUBLE_0_1) None, Max (Fin 100) None])]"

definition VAULT_ACTIONS :: "string list" where
  "VAULT_ACTIONS =
     [''deposit'', ''withdraw'', ''balance'', ''previewDeposit'', ''previewWithdraw'',
      ''totalAssets'', ''totalSupply'']"

text \<open>\<open>VaultActionInput\<close>; \<open>url_ok\<close> is the URL parser behind \<open>.url()\<close>.\<close>

definition VaultActionInput :: "(string \<Rightarrow> bool) \<Rightarrow> zschema" where
  "VaultActionInput url_ok = ZObject
     [(''vault_address'', ZString [Regex ADDRESS_RE]),
      (''rpc_url'', ZString [Url url_ok]),
      (''action'', ZEnum VAULT_ACTIONS),
      (''amount'', ZOptional (ZNumber [])),
      (''user_address'', ZOptional (ZString [Regex ADDRESS_RE]))]"

text \<open>Whether an object schema takes \<open>v\<close> as the value of its key \<open>k\<close>.\<close>

definition field_accepts :: "zschema \<Rightarrow> string \<Rightarrow> jsval \<Rightarrow> bool" where
  "field_accepts sc k v = (case field_schema sc k of Some f \<Rightarrow> accepts f v | None \<Rightarrow> False)"

text \<open>
  The address format in the words of the specification: the prefix \<open>0x\<close> followed by
  exactly 40 hexadecimal characters.
\<close>

definition is_hex_digit :: "char \<Rightarrow> bool" where
  "is_hex_digit c = (c \<in> set ''0123456789abcdefABCDEF'')"

definition spec_address_format :: "string \<Rightarrow> bool" where
  "spec_address_format s =
     (take 2 s = ''0x'' \<and> length (drop 2 s) = 40 \<and> list_all is_hex_digit (drop 2 s))"

text \<open>
  The finite doubles: an integer of magnitude below \<open>2^53\<close> scaled by a power of two
  between \<open>2^-1074\<close> and \<open>2^971\<close>.
\<close>

definition is_binary64 :: "rat \<Rightarrow> bool" where
  "is_binary64 q =
     (\<exists>(m::int) (k::nat). \<bar>m\<bar> < 2 ^ 53 \<and>
        ((k \<le> 1074 \<and> q = of_int m / 2 ^ k) \<or> (k \<le> 971 \<and> q = of_int m * 2 ^ k)))"

definition is_double :: "jsnum \<Rightarrow> bool" where
  "is_double x = (case x of Fin q \<Rightarrow> is_binary64 q | _ \<Rightarrow> True)"

section \<open>Effects: calls into the SDK\<close>

text \<open>
  The handlers have no state of their own. What they do besides computing a string is
  call into external libraries (ethers, the Coinbase wallet, decimal.js): they
  construct objects, call methods and read properties of objects they got back. All of
  that is one parameter \<open>sdk\<close>, which answers a call with a value or throws. A run of
  a handler yields its outcome and the calls it made, in order.
\<close>

datatype call =
    Construct string "jsval list"
  | Invoke jsval string "jsval list"
  | Read jsval string
  | ToString jsval

type_synonym sdk = "call \<Rightarrow> thrown + jsval"

type_synonym 'a io = "(thrown + 'a) \<times> call list"

definition io_ret :: "'a \<Rightarrow> 'a io" where
  "io_ret x = (Inr x, [])"

definition io_throw :: "thrown \<Rightarrow> 'a io" where
  "io_throw e = (Inl e, [])"

definition io_bind :: "'a io \<Rightarrow> ('a \<Rightarrow> 'b io) \<Rightarrow> 'b io" where
  "io_bind m f =
     (case m of
        (Inl e, t) \<Rightarrow> (Inl e, t)
      | (Inr x, t) \<Rightarrow> (case f x of (r, t') \<Rightarrow> (r, t @ t')))"

text \<open>\<open>try { m } catch (error) { h error }\<close>\<close>

definition try_catch :: "'a io \<Rightarrow> (thrown \<Rightarrow> 'a io) \<Rightarrow> 'a io" where
  "try_catch m h =
     (case m of
        (Inl e, t) \<Rightarrow> (case h e of (r, t') \<Rightarrow> (r, t @ t'))
      | (Inr x, t) \<Rightarrow> (Inr x, t))"

definition perform :: "sdk \<Rightarrow> call \<Rightarrow> jsval io" where
  "perform sdk c = (sdk c, [c])"





text \<open>
  What the engine and the process supply: rounding to a double, \<open>Number::toString\<close>,
  the clock behind \<open>Date.now()\<close>, the environment variable \<open>PRIVATE_KEY\<close>, and the
  imported JSON module \<open>ERC4626VaultABI\<close>, which is not among the sources.
\<close>

record runtime =
  rnd :: "rat \<Rightarrow> jsnum"
  num_to_string :: "jsnum \<Rightarrow> string"
  date_now :: jsnum
  env_PRIVATE_KEY :: "string option"
  ERC4626VaultABI :: jsval

definition num_add :: "(rat \<Rightarrow> jsnum) \<Rightarrow> jsnum \<Rightarrow> jsnum \<Rightarrow> jsnum" where
  "num_add r a b = num_sub r a (num_neg b)"

text \<open>
  A substitution \<open>${v}\<close> in a template literal. A primitive value is converted by
  the engine. An object (or array) is first converted to a primitive by a call into
  the object, its \<open>toString\<close> or failing that its \<open>valueOf\<close>; that call is
  \<open>ToString v\<close>, and a \<open>TypeError\<close> is thrown when it yields no primitive.
\<close>

definition prim_text :: "runtime \<Rightarrow> jsval \<Rightarrow> string option" where
  "prim_text rt v =
     (case v of
        JStr s \<Rightarrow> Some s
      | JNum x \<Rightarrow> Some (num_to_string rt x)
      | JBig i \<Rightarrow> Some (show_int i)
      | Undefined \<Rightarrow> Some ''undefined''
      | Null \<Rightarrow> Some ''null''
      | JBool b \<Rightarrow> Some (if b then ''true'' else ''false'')
      | _ \<Rightarrow> None)"

definition template_str :: "runtime \<Rightarrow> sdk \<Rightarrow> jsval \<Rightarrow> string io" where
  "template_str rt sdk v =
     (case prim_text rt v of
        Some s \<Rightarrow> io_ret s
      | None \<Rightarrow>
          io_bind (perform sdk (ToString v))
            (\<lambda>r. case prim_text rt r of
                   Some s \<Rightarrow> io_ret s
                 | None \<Rightarrow> io_throw (ErrorObj ''TypeError'' ''Cannot convert object to primitive value'')))"

definition nl :: string where
  "nl = [CHR 0x0A]"

section \<open>createERC4626Vault\<close>

record create_vault_args =
  name :: string
  symbol :: string
  assetAddress :: string
  feeRecipient :: string
  depositFee :: jsnum
  withdrawalFee :: jsnum

definition createERC4626Vault_try :: "runtime \<Rightarrow> sdk \<Rightarrow> create_vault_args \<Rightarrow> string io" where
  "createERC4626Vault_try rt sdk args =
     io_bind (perform sdk (Construct ''ethers.JsonRpcProvider'' [JStr ''https://sepolia.base.org''])) (\<lambda>provider.
     if falsy_str (env_PRIVATE_KEY rt)
     then io_throw (new_Error ''PRIVATE_KEY environment variable is not set'')
     else
     io_bind (perform sdk (Construct ''ethers.Wallet'' [JStr (the (env_PRIVATE_KEY rt)), provider])) (\<lambda>wallet.
     io_bind (perform sdk (Construct ''ethers.ContractFactory''
                [get_prop (ERC4626VaultABI rt) ''abi'', get_prop (ERC4626VaultABI rt) ''bytecode'', wallet])) (\<lambda>VaultFactory.
     io_bind (perform sdk (Invoke VaultFactory ''deploy''
                [JStr (assetAddress args), JStr (name args), JStr (symbol args), JStr (feeRecipient args),
                 JNum (depositFee args), JNum (withdrawalFee args)])) (\<lambda>vault.
     io_bind (perform sdk (Invoke vault ''waitForDeployment'' [])) (\<lambda>_.
     io_bind (perform sdk (Invoke vault ''getAddress'' [])) (\<lambda>vaultAddress.
     io_bind (template_str rt sdk vaultAddress) (\<lambda>vaultAddress_text.
     io_ret (''Successfully deployed ERC-4626 Vault:'' @ nl @
             ''      Name: '' @ name args @ nl @
             ''      Symbol: '' @ symbol args @ nl @
             ''      Vault Address: '' @ vaultAddress_text @ nl @
             ''      Asset Address: '' @ assetAddress args @ nl @
             ''      Fee Recipient: '' @ feeRecipient args @ nl @
             ''      Deposit Fee: '' @ num_to_string rt (depositFee args) @ ''%'' @ nl @
             ''      Withdrawal Fee: '' @ num_to_string rt (withdrawalFee args) @ ''%''))))))))"

definition createERC4626Vault_catch :: "thrown \<Rightarrow> string io" where
  "createERC4626Vault_catch error =
     (let errorMessage = (if instanceof_Error error then err_message error else ''Unknown error'')
      in io_throw (new_Error (''Failed to deploy ERC-4626 Vault: '' @ errorMessage)))"

definition createERC4626Vault :: "runtime \<Rightarrow> sdk \<Rightarrow> create_vault_args \<Rightarrow> string io" where
  "createERC4626Vault rt sdk args =
     try_catch (createERC4626Vault_try rt sdk args) createERC4626Vault_catch"

text \<open>
  The unnamed source file that also holds the registry carries an earlier variant of
  this handler, which makes no call and returns the summary at once.
\<close>

definition createERC4626Vault_mock :: "runtime \<Rightarrow> create_vault_args \<Rightarrow> string io" where
  "createERC4626Vault_mock rt args =
     try_catch
       (io_ret (''Successfully created ERC-4626 Vault:'' @ nl @
                ''      Name: '' @ name args @ nl @
                ''      Symbol: '' @ symbol args @ nl @
                ''      Asset Address: '' @ assetAddress args @ nl @
                ''      Fee Recipient: '' @ feeRecipient args @ nl @
                ''      Deposit Fee: '' @ num_to_string rt (depositFee args) @ ''%'' @ nl @
                ''      Withdrawal Fee: '' @ num_to_string rt (withdrawalFee args) @ ''%''))
       (\<lambda>error. io_throw (new_Error (''Failed to deploy ERC-4626 Vault'' @ [CHR 0x27] @ ''}'')))"

section \<open>gorilli\_trade\<close>

text \<open>\<open>amount\<close> has the SDK's type \<open>Amount\<close>: a number, a bigint or a \<open>Decimal\<close> object.\<close>

record gorilli_trade_args =
  amount :: jsval
  fromAssetId :: string
  toAssetId :: string

definition gorilli_trade_try :: "runtime \<Rightarrow> sdk \<Rightarrow> jsval \<Rightarrow> gorilli_trade_args \<Rightarrow> string io" where
  "gorilli_trade_try rt sdk wallet args =
     io_bind (perform sdk (Invoke wallet ''createTrade''
                [JObj [(''amount'', amount args),
                       (''fromAssetId'', JStr (fromAssetId args)),
                       (''toAssetId'', JStr (toAssetId args))]])) (\<lambda>tradeResult.
     io_bind (perform sdk (Invoke tradeResult ''wait'' [])) (\<lambda>result.
     io_bind (template_str rt sdk (amount args)) (\<lambda>amount_text.
     io_bind (perform sdk (Invoke result ''getToAmount'' [])) (\<lambda>toAmount.
     io_bind (template_str rt sdk toAmount) (\<lambda>toAmount_text.
     io_bind (perform sdk (Invoke result ''getTransaction'' [])) (\<lambda>tx.
     io_bind (perform sdk (Invoke tx ''getTransactionHash'' [])) (\<lambda>hash.
     io_bind (template_str rt sdk hash) (\<lambda>hash_text.
     io_bind (perform sdk (Invoke result ''getTransaction'' [])) (\<lambda>tx'.
     io_bind (perform sdk (Invoke tx' ''getTransactionLink'' [])) (\<lambda>link.
     io_bind (template_str rt sdk link) (\<lambda>link_text.
     io_ret (''Gorilli - Traded '' @ amount_text @ '' of '' @ fromAssetId args @
             '' for '' @ toAmount_text @ '' of '' @ toAssetId args @ ''.'' @ nl @
             ''Transaction hash for the trade: '' @ hash_text @ nl @
             ''Transaction link for the trade: '' @ link_text))))))))))))"

definition gorilli_trade :: "runtime \<Rightarrow> sdk \<Rightarrow> jsval \<Rightarrow> gorilli_trade_args \<Rightarrow> string io" where
  "gorilli_trade rt sdk wallet args =
     try_catch (gorilli_trade_try rt sdk wallet args)
       (\<lambda>error. io_ret (''Error trading assets: '' @ thrown_to_string error))"

section \<open>gorilliMemeTrade\<close>

definition VAULT_ADDRESS :: string where
  "VAULT_ADDRESS = ''0xc6827ce6d60a13a20a86dcac8c9e6d0f84497345''"

definition BRETT_ADDRESS :: string where
  "BRETT_ADDRESS = ''0x532f27101965dd16442e59d40670faf5ebb142e4''"

definition USDC_ADDRESS :: string where
  "USDC_ADDRESS = ''0x833589fcd6edb6e08f4c7c32d4f71b54bda02913''"

text \<open>The parameter type \<open>"BUY" | "SELL"\<close>, and the text of a value of it.\<close>

datatype trade_action = BUY | SELL

fun trade_action_text :: "trade_action \<Rightarrow> string" where
  "trade_action_text BUY = ''BUY''"
| "trade_action_text SELL = ''SELL''"

record meme_trade_args =
  action :: trade_action
  amountIn :: string
  slippagePercentage :: jsnum

definition EXECUTE_TRADE_ABI :: jsval where
  "EXECUTE_TRADE_ABI = JArr
     [JObj [(''inputs'', JArr
              [JObj [(''internalType'', JStr ''address''), (''name'', JStr ''tokenOut''), (''type'', JStr ''address'')],
               JObj [(''internalType'', JStr ''uint256''), (''name'', JStr ''amountIn''), (''type'', JStr ''uint256'')],
               JObj [(''internalType'', JStr ''uint256''), (''name'', JStr ''minAmountOut''), (''type'', JStr ''uint256'')],
               JObj [(''internalType'', JStr ''uint256''), (''name'', JStr ''deadline''), (''type'', JStr ''uint256'')]]),
            (''name'', JStr ''executeTrade''),
            (''outputs'', JArr []),
            (''stateMutability'', JStr ''external''),
            (''type'', JStr ''function'')]]"

text \<open>\<open>action === "BUY" ? BRETT_ADDRESS : USDC_ADDRESS\<close>\<close>

definition tokenOut_of :: "trade_action \<Rightarrow> string" where
  "tokenOut_of a = (if a = BUY then BRETT_ADDRESS else USDC_ADDRESS)"

text \<open>\<open>Math.floor(Date.now() / 1000) + 600\<close>\<close>

definition deadline_of :: "runtime \<Rightarrow> jsnum" where
  "deadline_of rt = num_add (rnd rt) (Math_floor (num_div (rnd rt) (date_now rt) 1000)) (Fin 600)"

text \<open>\<open>BigInt(Math.floor(Number(amountIn) * (1 - slippagePercentage / 100)))\<close>\<close>

definition minAmountOut_of :: "runtime \<Rightarrow> string \<Rightarrow> jsnum \<Rightarrow> thrown + int" where
  "minAmountOut_of rt amount_in slippage =
     BigInt (num_to_string rt)
       (Math_floor (num_mul (rnd rt) (Number (rnd rt) amount_in)
                      (num_sub (rnd rt) (Fin 1) (num_div (rnd rt) slippage 100))))"

text \<open>The object passed to \<open>wallet.invokeContract\<close>.\<close>

definition invocation_options :: "string \<Rightarrow> string \<Rightarrow> int \<Rightarrow> jsnum \<Rightarrow> jsval \<Rightarrow> jsval" where
  "invocation_options tokenOut amount_in minAmountOut deadline decimal = JObj
     [(''contractAddress'', JStr VAULT_ADDRESS),
      (''method'', JStr ''executeTrade''),
      (''args'', JArr [JStr tokenOut, JStr amount_in, JBig minAmountOut, JNum deadline]),
      (''abi'', EXECUTE_TRADE_ABI),
      (''amount'', decimal),
      (''assetId'', JStr ''eth'')]"

definition gorilliMemeTrade_try ::
  "runtime \<Rightarrow> sdk \<Rightarrow> jsval \<Rightarrow> meme_trade_args \<Rightarrow> string \<Rightarrow> jsnum \<Rightarrow> int \<Rightarrow> string io" where
  "gorilliMemeTrade_try rt sdk wallet args tokenOut deadline minAmountOut =
     io_bind (perform sdk (Construct ''Decimal'' [JStr (amountIn args)])) (\<lambda>decimal.
     io_bind (perform sdk (Invoke wallet ''invokeContract''
                [invocation_options tokenOut (amountIn args) minAmountOut deadline decimal])) (\<lambda>invocation.
     io_bind (perform sdk (Invoke invocation ''wait'' [])) (\<lambda>_.
     io_bind (perform sdk (Invoke invocation ''getTransactionHash'' [])) (\<lambda>hash.
     io_bind (template_str rt sdk hash) (\<lambda>hash_text.
     io_ret (''Successfully executed '' @ trade_action_text (action args) @
             '' trade. Transaction hash: '' @ hash_text @
             ''. Input amount: '' @ amountIn args @
             '', Minimum output amount: '' @ show_int minAmountOut))))))"

text \<open>
  The token, the deadline and the minimum output are computed before the \<open>try\<close>
  statement is entered, so what the conversion to \<open>BigInt\<close> throws leaves the function.
\<close>

definition gorilliMemeTrade :: "runtime \<Rightarrow> sdk \<Rightarrow> jsval \<Rightarrow> meme_trade_args \<Rightarrow> string io" where
  "gorilliMemeTrade rt sdk wallet args =
     (let tokenOut = tokenOut_of (action args);
          deadline = deadline_of rt
      in case minAmountOut_of rt (amountIn args) (slippagePercentage args) of
           Inl e \<Rightarrow> io_throw e
         | Inr minAmountOut \<Rightarrow>
             try_catch (gorilliMemeTrade_try rt sdk wallet args tokenOut deadline minAmountOut)
               (\<lambda>error. io_ret (''Error executing trade: '' @
                          (if instanceof_Error error then err_message error else ''Unknown error''))))"

section \<open>vaultInteraction\<close>

definition ERC4626_ABI :: jsval where
  "ERC4626_ABI = JArr
     [JStr ''function deposit(uint256 assets, address receiver) returns (uint256 shares)'',
      JStr ''function withdraw(uint256 assets, address receiver, address owner) returns (uint256 shares)'',
      JStr ''function balanceOf(address owner) view returns (uint256)'',
      JStr ''function totalAssets() view returns (uint256)'',
      JStr ''function totalSupply() view returns (uint256)'',
      JStr ''function previewDeposit(uint256 assets) view returns (uint256)'',
      JStr ''function previewWithdraw(uint256 assets) view returns (uint256)'',
      JStr ''function asset() view returns (address)'']"

text \<open>An optional argument as the value passed on: a missing one is \<open>undefined\<close>.\<close>

definition opt_num :: "jsnum option \<Rightarrow> jsval" where
  "opt_num a = (case a of None \<Rightarrow> Undefined | Some x \<Rightarrow> JNum x)"

definition opt_str :: "string option \<Rightarrow> jsval" where
  "opt_str a = (case a of None \<Rightarrow> Undefined | Some x \<Rightarrow> JStr x)"

text \<open>
  The \<open>switch\<close> statement: \<open>vault_switch\<close> is the selection of a \<open>case\<close> label by
  strict equality, in the order of the labels, and \<open>vault_branch\<close> is the code under
  each label.
\<close>

datatype vault_case =
    CaseDeposit | CaseWithdraw | CaseBalance | CasePreviewDeposit | CasePreviewWithdraw
  | CaseTotalAssets | CaseTotalSupply | CaseDefault

definition vault_switch :: "string \<Rightarrow> vault_case" where
  "vault_switch act =
     (if act = ''deposit'' then CaseDeposit
      else if act = ''withdraw'' then CaseWithdraw
      else if act = ''balance'' then CaseBalance
      else if act = ''previewDeposit'' then CasePreviewDeposit
      else if act = ''previewWithdraw'' then CasePreviewWithdraw
      else if act = ''totalAssets'' then CaseTotalAssets
      else if act = ''totalSupply'' then CaseTotalSupply
      else CaseDefault)"

text \<open>The value a call returned, converted by \<open>.toString()\<close> and put into a template.\<close>

definition to_string_text :: "runtime \<Rightarrow> sdk \<Rightarrow> jsval \<Rightarrow> string io" where
  "to_string_text rt sdk v =
     io_bind (perform sdk (Invoke v ''toString'' [])) (\<lambda>t. template_str rt sdk t)"

fun vault_branch ::
  "runtime \<Rightarrow> sdk \<Rightarrow> jsval \<Rightarrow> string \<Rightarrow> jsnum option \<Rightarrow> string option \<Rightarrow> vault_case \<Rightarrow> string io" where
  "vault_branch rt sdk vaultContract act amt user_address CaseDeposit =
     (if falsy_num amt \<or> falsy_str user_address
      then io_throw (new_Error ''Amount and user address required for deposits'')
      else io_bind (perform sdk (Invoke vaultContract ''deposit'' [opt_num amt, opt_str user_address])) (\<lambda>depositTx.
           io_bind (perform sdk (Read depositTx ''hash'')) (\<lambda>hash.
           io_bind (template_str rt sdk hash) (\<lambda>hash_text.
           io_ret (''Deposit transaction submitted: '' @ hash_text)))))"
| "vault_branch rt sdk vaultContract act amt user_address CaseWithdraw =
     (if falsy_num amt \<or> falsy_str user_address
      then io_throw (new_Error ''Amount and user address required for withdrawals'')
      else io_bind (perform sdk (Invoke vaultContract ''withdraw''
                      [opt_num amt, opt_str user_address, opt_str user_address])) (\<lambda>withdrawTx.
           io_bind (perform sdk (Read withdrawTx ''hash'')) (\<lambda>hash.
           io_bind (template_str rt sdk hash) (\<lambda>hash_text.
           io_ret (''Withdrawal transaction submitted: '' @ hash_text)))))"
| "vault_branch rt sdk vaultContract act amt user_address CaseBalance =
     (if falsy_str user_address
      then io_throw (new_Error ''User address required for balance queries'')
      else io_bind (perform sdk (Invoke vaultContract ''balanceOf'' [opt_str user_address])) (\<lambda>balance.
           io_bind (to_string_text rt sdk balance) (\<lambda>balance_text.
           io_ret (''User vault share balance: '' @ balance_text))))"
| "vault_branch rt sdk vaultContract act amt user_address CasePreviewDeposit =
     (if falsy_num amt
      then io_throw (new_Error ''Amount required for deposit preview'')
      else io_bind (perform sdk (Invoke vaultContract ''previewDeposit'' [opt_num amt])) (\<lambda>shares.
           io_bind (to_string_text rt sdk shares) (\<lambda>shares_text.
           io_ret (''Expected shares for deposit: '' @ shares_text))))"
| "vault_branch rt sdk vaultContract act amt user_address CasePreviewWithdraw =
     (if falsy_num amt
      then io_throw (new_Error ''Amount required for withdrawal preview'')
      else io_bind (perform sdk (Invoke vaultContract ''previewWithdraw'' [opt_num amt])) (\<lambda>assets.
           io_bind (to_string_text rt sdk assets) (\<lambda>assets_text.
           io_ret (''Expected assets for withdrawal: '' @ assets_text))))"
| "vault_branch rt sdk vaultContract act amt user_address CaseTotalAssets =
     io_bind (perform sdk (Invoke vaultContract ''totalAssets'' [])) (\<lambda>totalAssets.
     io_bind (to_string_text rt sdk totalAssets) (\<lambda>totalAssets_text.
     io_ret (''Total assets in vault: '' @ totalAssets_text)))"
| "vault_branch rt sdk vaultContract act amt user_address CaseTotalSupply =
     io_bind (perform sdk (Invoke vaultContract ''totalSupply'' [])) (\<lambda>totalSupply.
     io_bind (to_string_text rt sdk totalSupply) (\<lambda>totalSupply_text.
     io_ret (''Total vault shares in circulation: '' @ totalSupply_text)))"
| "vault_branch rt sdk vaultContract act amt user_address CaseDefault =
     io_throw (new_Error (''Unsupported action: '' @ act))"

definition vaultInteraction_try ::
  "runtime \<Rightarrow> sdk \<Rightarrow> jsval \<Rightarrow> string \<Rightarrow> string \<Rightarrow> string \<Rightarrow> jsnum option \<Rightarrow> string option \<Rightarrow> string io" where
  "vaultInteraction_try rt sdk wallet vault_address rpc_url act amt user_address =
     io_bind (perform sdk (Construct ''Contract'' [JStr vault_address, ERC4626_ABI, wallet])) (\<lambda>vaultContract.
     vault_branch rt sdk vaultContract act amt user_address (vault_switch act))"

definition vaultInteraction_catch :: "thrown \<Rightarrow> string io" where
  "vaultInteraction_catch error =
     (if instanceof_Error error
      then (if str_includes (err_message error) ''insufficient balance''
            then io_ret ''Error: Insufficient balance for the requested operation''
            else if str_includes (err_message error) ''gas required exceeds allowance''
            then io_ret ''Error: Transaction would fail - gas estimation failed''
            else if str_includes (err_message error) ''network''
            then io_ret ''Error: RPC connection failed - please check your connection and try again''
            else io_ret (''Error: '' @ err_message error))
      else io_ret ''An unknown error occurred'')"

definition vaultInteraction ::
  "runtime \<Rightarrow> sdk \<Rightarrow> jsval \<Rightarrow> string \<Rightarrow> string \<Rightarrow> string \<Rightarrow> jsnum option \<Rightarrow> string option \<Rightarrow> string io" where
  "vaultInteraction rt sdk wallet vault_address rpc_url act amt user_address =
     try_catch (vaultInteraction_try rt sdk wallet vault_address rpc_url act amt user_address)
       vaultInteraction_catch"

text \<open>A call of a method of an object, as opposed to a construction or a read.\<close>

fun is_method_call :: "call \<Rightarrow> bool" where
  "is_method_call (Invoke _ _ _) = True"
| "is_method_call _ = False"

text \<open>The method of the contract that the code under each label calls.\<close>

fun vault_method :: "vault_case \<Rightarrow> string option" where
  "vault_method CaseDeposit = Some ''deposit''"
| "vault_method CaseWithdraw = Some ''withdraw''"
| "vault_method CaseBalance = Some ''balanceOf''"
| "vault_method CasePreviewDeposit = Some ''previewDeposit''"
| "vault_method CasePreviewWithdraw = Some ''previewWithdraw''"
| "vault_method CaseTotalAssets = Some ''totalAssets''"
| "vault_method CaseTotalSupply = Some ''totalSupply''"
| "vault_method CaseDefault = None"

text \<open>
  What a branch does with the value a method returned: it reads its \<open>hash\<close> or calls
  its \<open>toString\<close>, and puts the result into a template.
\<close>

fun is_conversion :: "call \<Rightarrow> bool" where
  "is_conversion (Read _ k) = (k = ''hash'')"
| "is_conversion (Invoke _ m as) = (m = ''toString'' \<and> as = [])"
| "is_conversion (ToString _) = True"
| "is_conversion (Construct _ _) = False"

section \<open>The action registry\<close>

definition CREATE_VAULT_PROMPT :: string where
  "CREATE_VAULT_PROMPT =
     nl @
     ''This tool allows users to create an ERC-4626 vault. ERC-4626 is a tokenized vault standard for yield-bearing assets in DeFi. Use this tool when a user needs to deploy a new vault for managing assets efficiently.'' @
     nl"

definition GORILLI_TRADE_PROMPT :: string where
  "GORILLI_TRADE_PROMPT =
     nl @ ''This tool will trade a specified amount of a '' @ [CHR 0x27] @ ''from asset'' @
     [CHR 0x27] @ '' to a '' @ [CHR 0x27] @ ''to asset'' @ [CHR 0x27] @ '' for the wallet.'' @
     nl @ nl @ ''It takes the following inputs:'' @ nl @ ''- The amount of the '' @
     [CHR 0x27] @ ''from asset'' @ [CHR 0x27] @ '' to trade'' @ nl @
     ''- The from asset ID to trade '' @ nl @ ''- The asset ID to receive from the trade'' @
     nl @ nl @ ''- if brett use the contract 0x532f27101965dd16442e59d40670faf5ebb142e4'' @
     nl @ ''- use usdc or eth to pay it'' @ nl @ nl @ ''Important notes:'' @ nl @
     ''- Trades are only supported on mainnet networks (ie, '' @ [CHR 0x27] @
     ''base-mainnet'' @ [CHR 0x27] @ '', '' @ [CHR 0x27] @ ''base'' @ [CHR 0x27] @ '', '' @
     [CHR 0x27] @ ''ethereum-mainnet'' @ [CHR 0x27] @ '', '' @ [CHR 0x27] @ ''ethereum'' @
     [CHR 0x27] @ '', etc.)'' @ nl @
     ''- Never allow trades on any non-mainnet network (ie, '' @ [CHR 0x27] @
     ''base-sepolia'' @ [CHR 0x27] @ '', '' @ [CHR 0x27] @ ''ethereum-sepolia'' @ [CHR 0x27] @
     '', etc.)'' @ nl @ ''- When selling a native asset (e.g. '' @ [CHR 0x27] @ ''eth'' @
     [CHR 0x27] @
     '' on base-mainnet), ensure there is sufficient balance to pay for the trade AND the gas cost of this trade'' @
     nl"

definition MEME_TRADE_PROMPT :: string where
  "MEME_TRADE_PROMPT =
     nl @ ''This tool executes trades in the Gorillionaire Vault on Base network.'' @ nl @
     ''- For SELL: Sells BRETT to get USDC'' @ nl @ ''- For BUY: Sells USDC to get BRETT'' @
     nl @ ''The tool handles the proper token routing and minimum output calculations.'' @ nl"

text \<open>
  An action object has four fields. Its \<open>func\<close> takes the wallet and the arguments, or
  the arguments alone. The arguments arrive as the parsed input and are read at their
  declared types.
\<close>

datatype handler =
    WalletHandler "runtime \<Rightarrow> sdk \<Rightarrow> jsval \<Rightarrow> jsval \<Rightarrow> string io"
  | PlainHandler "runtime \<Rightarrow> sdk \<Rightarrow> jsval \<Rightarrow> string io"

record cdp_action =
  action_name :: string
  description :: string
  argsSchema :: zschema
  func :: handler

definition str_of :: "jsval \<Rightarrow> string" where
  "str_of v = (case v of JStr s \<Rightarrow> s | _ \<Rightarrow> [])"

definition num_of :: "jsval \<Rightarrow> jsnum" where
  "num_of v = (case v of JNum x \<Rightarrow> x | _ \<Rightarrow> NaN)"

definition create_vault_args_of :: "jsval \<Rightarrow> create_vault_args" where
  "create_vault_args_of v =
     \<lparr>name = str_of (get_prop v ''name''), symbol = str_of (get_prop v ''symbol''),
      assetAddress = str_of (get_prop v ''assetAddress''),
      feeRecipient = str_of (get_prop v ''feeRecipient''),
      depositFee = num_of (get_prop v ''depositFee''),
      withdrawalFee = num_of (get_prop v ''withdrawalFee'')\<rparr>"

definition gorilli_trade_args_of :: "jsval \<Rightarrow> gorilli_trade_args" where
  "gorilli_trade_args_of v =
     \<lparr>amount = get_prop v ''amount'', fromAssetId = str_of (get_prop v ''fromAssetId''),
      toAssetId = str_of (get_prop v ''toAssetId'')\<rparr>"

definition meme_trade_args_of :: "jsval \<Rightarrow> meme_trade_args" where
  "meme_trade_args_of v =
     \<lparr>action = (if get_prop v ''action'' = JStr ''BUY'' then BUY else SELL),
      amountIn = str_of (get_prop v ''amountIn''),
      slippagePercentage = num_of (get_prop v ''slippagePercentage'')\<rparr>"

definition CreateERC4626VaultAction :: cdp_action where
  "CreateERC4626VaultAction =
     \<lparr>action_name = ''gorilli_create_erc4626_vault'', description = CREATE_VAULT_PROMPT,
      argsSchema = CreateVaultInput,
      func = PlainHandler (\<lambda>rt sdk v. createERC4626Vault rt sdk (create_vault_args_of v))\<rparr>"

definition GorilliTradeAction :: cdp_action where
  "GorilliTradeAction =
     \<lparr>action_name = ''gorilli_trade'', description = GORILLI_TRADE_PROMPT,
      argsSchema = GorilliTradeInput,
      func = WalletHandler (\<lambda>rt sdk wallet v. gorilli_trade rt sdk wallet (gorilli_trade_args_of v))\<rparr>"

definition GorilliMemeTradeAction :: cdp_action where
  "GorilliMemeTradeAction =
     \<lparr>action_name = ''gorilli_trade_meme'', description = MEME_TRADE_PROMPT,
      argsSchema = GorilliMemeTradeInput,
      func = WalletHandler (\<lambda>rt sdk wallet v. gorilliMemeTrade rt sdk wallet (meme_trade_args_of v))\<rparr>"

text \<open>
  \<open>action.func(wallet, args)\<close>, or \<open>action.func(args)\<close> for a handler that takes the
  arguments alone.
\<close>

definition call_func :: "handler \<Rightarrow> runtime \<Rightarrow> sdk \<Rightarrow> jsval \<Rightarrow> jsval \<Rightarrow> string io" where
  "call_func h rt sdk wallet v =
     (case h of WalletHandler f \<Rightarrow> f rt sdk wallet v | PlainHandler f \<Rightarrow> f rt sdk v)"

text \<open>
  Objects have an identity: \<open>new\<close> and an array literal create an object that did not
  exist before, and two references are the same object or not. The objects live in a
  store, a reference is a position in it, and creating an object appends it. Besides
  action instances and arrays of references the store holds the objects of other
  modules, whose content plays no part here. What \<open>console.log\<close> printed is part of the
  state too.
\<close>

datatype obj = ActionObj cdp_action | ArrayObj "nat list" | ForeignObj

record module_state =
  objects :: "obj list"
  console_out :: "(string \<times> nat) list"

definition lookup :: "module_state \<Rightarrow> nat \<Rightarrow> obj option" where
  "lookup s r = (if r < length (objects s) then Some (objects s ! r) else None)"

definition new_obj :: "obj \<Rightarrow> module_state \<Rightarrow> nat \<times> module_state" where
  "new_obj ob s = (length (objects s), s\<lparr>objects := objects s @ [ob]\<rparr>)"

text \<open>The elements of an array literal are evaluated from left to right.\<close>

fun new_objs :: "obj list \<Rightarrow> module_state \<Rightarrow> nat list \<times> module_state" where
  "new_objs [] s = ([], s)"
| "new_objs (ob # obs) s =
     (case new_obj ob s of (r, s1) \<Rightarrow>
        (case new_objs obs s1 of (rs, s2) \<Rightarrow> (r # rs, s2)))"

text \<open>
  The ten other action classes and \<open>WOW_ACTIONS\<close> are imported from modules that are
  not among the sources. The fields of the instance that each class creates are a
  parameter, and so is the reference of the array \<open>WOW_ACTIONS\<close>, which the module
  \<open>./defi/wow\<close> built when it was loaded.
\<close>

record imported_actions =
  GetWalletDetailsAction :: cdp_action
  DeployNftAction :: cdp_action
  DeployTokenAction :: cdp_action
  GetBalanceAction :: cdp_action
  MintNftAction :: cdp_action
  RegisterBasenameAction :: cdp_action
  RequestFaucetFundsAction :: cdp_action
  TradeAction :: cdp_action
  TransferAction :: cdp_action
  WrapEthAction :: cdp_action
  WOW_ACTIONS :: nat

text \<open>
  \<open>getAllCdpActions\<close> creates thirteen instances and the array that holds them, writes
  the array to the console and returns it.
\<close>

definition getAllCdpActions :: "imported_actions \<Rightarrow> module_state \<Rightarrow> nat \<times> module_state" where
  "getAllCdpActions imp s =
     (case new_objs
             (map ActionObj
               [GetWalletDetailsAction imp, DeployNftAction imp, DeployTokenAction imp,
                GetBalanceAction imp, MintNftAction imp, RegisterBasenameAction imp,
                RequestFaucetFundsAction imp, TradeAction imp, TransferAction imp, WrapEthAction imp,
                CreateERC4626VaultAction, GorilliTradeAction, GorilliMemeTradeAction]) s of
        (instances, s1) \<Rightarrow>
          (case new_obj (ArrayObj instances) s1 of
             (CDP_ACTIONS, s2) \<Rightarrow>
               (CDP_ACTIONS,
                s2\<lparr>console_out := console_out s2 @ [(''RETRIEVED CDP_ACTIONS'', CDP_ACTIONS)]\<rparr>)))"

text \<open>
  \<open>Array.prototype.concat\<close> creates a new array. It holds the elements of the array it
  is called on, followed by the elements of the argument if that is an array, and by
  the argument itself otherwise.
\<close>

definition elements_of :: "module_state \<Rightarrow> nat \<Rightarrow> nat list" where
  "elements_of s r = (case lookup s r of Some (ArrayObj rs) \<Rightarrow> rs | _ \<Rightarrow> [r])"

definition concat_arrays :: "nat \<Rightarrow> nat \<Rightarrow> module_state \<Rightarrow> nat \<times> module_state" where
  "concat_arrays a b s = new_obj (ArrayObj (elements_of s a @ elements_of s b)) s"

text \<open>\<open>export const CDP_ACTIONS = getAllCdpActions().concat(WOW_ACTIONS)\<close>, evaluated when the module loads.\<close>

definition CDP_ACTIONS :: "imported_actions \<Rightarrow> module_state \<Rightarrow> nat \<times> module_state" where
  "CDP_ACTIONS imp s =
     (case getAllCdpActions imp s of (actions, s1) \<Rightarrow> concat_arrays actions (WOW_ACTIONS imp) s1)"

text \<open>The objects that an array holds, in order.\<close>

definition array_values :: "module_state \<Rightarrow> nat \<Rightarrow> obj option list" where
  "array_values s r = map (lookup s) (elements_of s r)"

text \<open>
  A value that a handler holds may be, or contain, a reference to an object. A handler
  has no statement that writes to an object; what it can do to one is hand it to the
  SDK, as the target or an argument of a call. \<open>refs_of\<close> are the references a value
  contains, \<open>call_refs\<close> the references a call hands over, and \<open>sdk_refs\<close> the
  references the SDK answers with.
\<close>

fun refs_of :: "jsval \<Rightarrow> nat set" where
  "refs_of (JRef r) = {r}"
| "refs_of (JArr vs) = (\<Union>v \<in> set vs. refs_of v)"
| "refs_of (JObj kvs) = (\<Union>kv \<in> set kvs. refs_of (snd kv))"
| "refs_of _ = {}"

fun call_refs :: "call \<Rightarrow> nat set" where
  "call_refs (Construct _ as) = (\<Union>v \<in> set as. refs_of v)"
| "call_refs (Invoke target _ as) = refs_of target \<union> (\<Union>v \<in> set as. refs_of v)"
| "call_refs (Read target _) = refs_of target"
| "call_refs (ToString v) = refs_of v"

definition sdk_refs :: "sdk \<Rightarrow> nat set" where
  "sdk_refs sdk = (\<Union>c. case sdk c of Inr v \<Rightarrow> refs_of v | Inl e \<Rightarrow> {})"

text \<open>
  Modelled from the spec: the wrapper of the agent framework that runs an action is not
  among the sources. The specification says that each action validates its structured
  input against the declared schema before it forwards anything to the SDK. An input
  the schema rejects yields the issues and the handler is not run.
\<close>

definition run_action :: "cdp_action \<Rightarrow> runtime \<Rightarrow> sdk \<Rightarrow> jsval \<Rightarrow> jsval \<Rightarrow> issue list + string io" where
  "run_action a rt sdk wallet input =
     (case safeParse (argsSchema a) input of
        Inl issues \<Rightarrow> Inl issues
      | Inr parsed \<Rightarrow>
          Inr (case func a of
                 WalletHandler f \<Rightarrow> f rt sdk wallet parsed
               | PlainHandler f \<Rightarrow> f rt sdk parsed))"

section \<open>Concrete inputs and environments\<close>

text \<open>
  Inputs at which the theorems below are instantiated: a runtime that rounds nothing and
  prints integers in decimal, an SDK that answers every call, an SDK whose method
  calls all throw, and arguments for each handler.
\<close>

definition ex_num_text :: "jsnum \<Rightarrow> string" where
  "ex_num_text x =
     (case x of Fin q \<Rightarrow> show_int \<lfloor>q\<rfloor> | NaN \<Rightarrow> ''NaN'' | PInf \<Rightarrow> ''Infinity'' | NInf \<Rightarrow> ''-Infinity'')"

definition ex_rt :: runtime where
  "ex_rt = \<lparr>rnd = Fin, num_to_string = ex_num_text, date_now = Fin 1700000000000,
            env_PRIVATE_KEY = Some ''0x01'',
            ERC4626VaultABI = JObj [(''abi'', JArr []), (''bytecode'', JStr ''0x'')]\<rparr>"

definition ex_sdk :: sdk where
  "ex_sdk c =
     (case c of
        Construct _ _ \<Rightarrow> Inr (JRef 1)
      | Invoke _ _ _ \<Rightarrow> Inr (JRef 2)
      | Read _ _ \<Rightarrow> Inr (JStr ''0xhash'')
      | ToString _ \<Rightarrow> Inr (JStr ''0xabc''))"

definition ex_sdk_failing :: sdk where
  "ex_sdk_failing c =
     (case c of
        Construct _ _ \<Rightarrow> Inr (JRef 1)
      | _ \<Rightarrow> Inl (new_Error ''execution reverted: insufficient balance''))"



text \<open>The same arguments as the parsed input of the action.\<close>

definition ex_trade_input :: jsval where
  "ex_trade_input =
     JObj [(''amount'', JNum (Fin 5)), (''fromAssetId'', JStr ''usdc''), (''toAssetId'', JStr ''eth'')]"

definition ex_meme_args :: meme_trade_args where
  "ex_meme_args = \<lparr>action = BUY, amountIn = ''1000'', slippagePercentage = Fin 1\<rparr>"

definition ex_bad_input :: jsval where
  "ex_bad_input = JObj [(''assetAddress'', JStr ''0x123''), (''vault_address'', JStr ''0x123''), (''depositFee'', JNum (Fin 101))]"

definition ex_meme_input_abc :: jsval where
  "ex_meme_input_abc =
     JObj [(''action'', JStr ''BUY''), (''amountIn'', JStr ''abc''), (''slippagePercentage'', JNum (Fin 1))]"

definition ex_action :: cdp_action where
  "ex_action = \<lparr>action_name = ''get_wallet_details'', description = [], argsSchema = ZObject [],
                 func = WalletHandler (\<lambda>rt sdk wallet v. io_ret [])\<rparr>"

definition ex_imports :: imported_actions where
  "ex_imports =
     \<lparr>GetWalletDetailsAction = ex_action, DeployNftAction = ex_action, DeployTokenAction = ex_action,
      GetBalanceAction = ex_action, MintNftAction = ex_action, RegisterBasenameAction = ex_action,
      RequestFaucetFundsAction = ex_action, TradeAction = ex_action, TransferAction = ex_action,
      WrapEthAction = ex_action, WOW_ACTIONS = 5\<rparr>"

text \<open>
  A state in which the wallet and two objects of the SDK exist at the references 0, 1
  and 2, and the module \<open>./defi/wow\<close> has built \<open>WOW_ACTIONS\<close>, an array of two
  instances, at the reference 5.
\<close>

definition ex_state :: module_state where
  "ex_state = \<lparr>objects = [ForeignObj, ForeignObj, ForeignObj, ActionObj ex_action, ActionObj ex_action,
                           ArrayObj [3, 4]],
               console_out = []\<rparr>"

text \<open>An SDK in which the construction of an object throws.\<close>

definition ex_sdk_no_contract :: sdk where
  "ex_sdk_no_contract c =
     (case c of
        Construct _ _ \<Rightarrow> Inl (ErrorObj ''TypeError'' ''invalid address'')
      | _ \<Rightarrow> Inr (JRef 2))"

section \<open>The address pattern\<close>

text \<open>
  The character class \<open>[a-fA-F0-9]\<close> holds exactly the 22 hexadecimal digits, a
  repetition \<open>{n}\<close> of a class consumes exactly \<open>n\<close> characters of it, and so the
  anchored pattern and the format of the specification accept the same strings.
\<close>

lemma hex_class_iff:
  "list_ex (in_range c) [(CHR ''a'', CHR ''f''), (CHR ''A'', CHR ''F''), (CHR ''0'', CHR ''9'')] \<longleftrightarrow> is_hex_digit c"
proof -
  define n where "n = (of_char c :: nat)"
  have c: "c = char_of n" by (simp add: n_def)
  have lhs: "list_ex (in_range c) [(CHR ''a'', CHR ''f''), (CHR ''A'', CHR ''F''), (CHR ''0'', CHR ''9'')]
      \<longleftrightarrow> (97 \<le> n \<and> n \<le> 102) \<or> (65 \<le> n \<and> n \<le> 70) \<or> (48 \<le> n \<and> n \<le> 57)"
    by (simp add: in_range_def n_def)
  have "(97 \<le> n \<and> n \<le> 102) \<or> (65 \<le> n \<and> n \<le> 70) \<or> (48 \<le> n \<and> n \<le> 57)
     \<longleftrightarrow> n \<in> {97, 98, 99, 100, 101, 102, 65, 66, 67, 68, 69, 70, 48, 49, 50, 51, 52, 53, 54, 55, 56, 57}"
    unfolding insert_iff empty_iff by presburger
  moreover have "is_hex_digit c" if "n \<in> {97, 98, 99, 100, 101, 102, 65, 66, 67, 68, 69, 70, 48, 49, 50, 51, 52, 53, 54, 55, 56, 57}"
  proof -
    from that have "\<exists>d \<in> set ''0123456789abcdefABCDEF''. (of_char d :: nat) = n"
      by auto
    then obtain d where d: "d \<in> set ''0123456789abcdefABCDEF''" "(of_char d :: nat) = of_char c"
      unfolding n_def by blast
    from d(2) have "d = c" by (simp only: of_char_eq_iff)
    with d(1) show ?thesis unfolding is_hex_digit_def by simp
  qed
  moreover have "is_hex_digit c
      \<Longrightarrow> n \<in> {97, 98, 99, 100, 101, 102, 65, 66, 67, 68, 69, 70, 48, 49, 50, 51, 52, 53, 54, 55, 56, 57}"
    unfolding is_hex_digit_def n_def by auto
  ultimately show ?thesis using lhs by blast
qed

lemma rx_run_rep_set:
  "rx_run (RRep n (RSet rs)) s =
     (if n \<le> length s \<and> list_all (\<lambda>c. list_ex (in_range c) rs) (take n s) then [drop n s] else [])"
proof (induction n arbitrary: s)
  case 0 show ?case by simp
next
  case (Suc n)
  show ?case
  proof (cases s)
    case Nil then show ?thesis by simp
  next
    case (Cons x xs)
    show ?thesis
    proof (cases "list_ex (in_range x) rs")
      case True
      then show ?thesis using Cons Suc [of xs] by simp
    next
      case False
      then show ?thesis using Cons by simp
    qed
  qed
qed

lemma rx_run_hex40:
  "rx_run (RRep 40 (RSet [(CHR ''a'', CHR ''f''), (CHR ''A'', CHR ''F''), (CHR ''0'', CHR ''9'')])) s =
     (if 40 \<le> length s \<and> list_all is_hex_digit (take 40 s) then [drop 40 s] else [])"
proof -
  have "(\<lambda>c. list_ex (in_range c) [(CHR ''a'', CHR ''f''), (CHR ''A'', CHR ''F''), (CHR ''0'', CHR ''9'')]) = is_hex_digit"
    by (rule ext) (rule hex_class_iff)
  then show ?thesis by (simp only: rx_run_rep_set)
qed

lemma address_re_spec: "regex_test ADDRESS_RE s \<longleftrightarrow> spec_address_format s"
proof (cases s)
  case Nil then show ?thesis by (simp add: regex_test_def ADDRESS_RE_def spec_address_format_def)
next
  case (Cons a t)
  note s1 = this
  show ?thesis
  proof (cases t)
    case Nil then show ?thesis using s1 by (simp add: regex_test_def ADDRESS_RE_def spec_address_format_def)
  next
    case (Cons b u)
    then show ?thesis using s1
      by (auto simp add: regex_test_def ADDRESS_RE_def spec_address_format_def rx_run_hex40)
  qed
qed

section \<open>Parsing against a schema\<close>

text \<open>
  A failed parse reports at least one issue, so an object is accepted exactly when
  every declared key is.
\<close>

lemma safeParse_Inl_nonempty: "safeParse sc v = Inl is \<Longrightarrow> is \<noteq> []"
proof (induction sc v arbitrary: "is" rule: safeParse.induct)
  case (1 cs v) then show ?case by (auto simp: Let_def split: jsval.splits if_splits)
next
  case (2 cs v) then show ?case by (auto simp: Let_def split: jsval.splits if_splits)
next
  case (3 vs v) then show ?case by (auto split: jsval.splits if_splits)
next
  case (4 v) then show ?case by simp
next
  case (5 sc v) then show ?case by (auto split: if_splits)
next
  case (6 fs v) then show ?case by (auto simp: Let_def split: jsval.splits if_splits)
qed

lemma accepts_object:
  "accepts (ZObject fs) v \<longleftrightarrow>
     (\<exists>kvs. v = JObj kvs) \<and> list_all (\<lambda>(k, sc). accepts sc (get_prop v k)) fs"
proof (cases v)
  case (JObj kvs)
  have "concat (map (\<lambda>(k, r). case r of Inl e \<Rightarrow> e | Inr _ \<Rightarrow> [])
            (map (\<lambda>(k, sc). (k, safeParse sc (get_prop v k))) fs)) = []
        \<longleftrightarrow> list_all (\<lambda>(k, sc). accepts sc (get_prop v k)) fs"
    by (induction fs) (auto simp: accepts_def split: sum.splits dest: safeParse_Inl_nonempty)
  then show ?thesis using JObj by (simp add: accepts_def Let_def)
qed (simp_all add: accepts_def)

lemma accepts_optional: "accepts (ZOptional sc) v \<longleftrightarrow> v = Undefined \<or> accepts sc v"
  by (simp add: accepts_def)

lemma address_string_accepts:
  "accepts (ZString [Refine (\<lambda>val. regex_test ADDRESS_RE val) msg]) v \<longleftrightarrow> (\<exists>s. v = JStr s \<and> spec_address_format s)"
  "accepts (ZString [Regex ADDRESS_RE]) v \<longleftrightarrow> (\<exists>s. v = JStr s \<and> spec_address_format s)"
  by (cases v; simp add: accepts_def address_re_spec)+

lemma fee_iff:
  "accepts (ZNumber [Min (Fin 0) m1, Max (Fin 100) m2]) (JNum x) \<longleftrightarrow> num_le (Fin 0) x \<and> num_le x (Fin 100)"
  by (cases x) (auto simp: accepts_def num_gt_def)

lemma fee_accepts:
  "accepts (ZNumber [Min (Fin 0) m1, Max (Fin 100) m2]) v \<longleftrightarrow>
     (\<exists>x. v = JNum x \<and> num_le (Fin 0) x \<and> num_le x (Fin 100))"
  using fee_iff by (cases v) (simp_all add: accepts_def)

lemma run_action_rejects:
  "\<not> accepts (argsSchema a) input \<Longrightarrow> \<exists>issues. run_action a rt sdk w input = Inl issues"
  by (auto simp: accepts_def run_action_def split: sum.splits)

text \<open>
  C2. For every string \<open>s\<close>, each of the four address fields (\<open>assetAddress\<close> and
  \<open>feeRecipient\<close> of \<open>CreateVaultInput\<close>, \<open>vault_address\<close> and \<open>user_address\<close> of
  \<open>VaultActionInput\<close>) accepts \<open>s\<close> if and only if \<open>s\<close> matches
  \<open>/^0x[a-fA-F0-9]{40}$/\<close>, that is, if and only if \<open>s\<close> is \<open>0x\<close> followed by exactly
  40 hexadecimal characters. An input that carries any other string in one of these
  fields is rejected by the schema, and an action run on it yields the issues and
  makes no call.
\<close>

theorem address_fields_accept_iff_format:
  "(regex_test ADDRESS_RE s \<longleftrightarrow> spec_address_format s) \<and>
   (field_accepts CreateVaultInput ''assetAddress'' (JStr s) \<longleftrightarrow> spec_address_format s) \<and>
   (field_accepts CreateVaultInput ''feeRecipient'' (JStr s) \<longleftrightarrow> spec_address_format s) \<and>
   (field_accepts (VaultActionInput url_ok) ''vault_address'' (JStr s) \<longleftrightarrow> spec_address_format s) \<and>
   (field_accepts (VaultActionInput url_ok) ''user_address'' (JStr s) \<longleftrightarrow> spec_address_format s) \<and>
   (\<not> spec_address_format s \<and>
      (get_prop input ''assetAddress'' = JStr s \<or> get_prop input ''feeRecipient'' = JStr s)
    \<longrightarrow> (\<exists>issues. safeParse CreateVaultInput input = Inl issues \<and>
           run_action CreateERC4626VaultAction rt sdk wallet input = Inl issues)) \<and>
   (\<not> spec_address_format s \<and>
      (get_prop input ''vault_address'' = JStr s \<or> get_prop input ''user_address'' = JStr s)
    \<longrightarrow> (\<exists>issues. safeParse (VaultActionInput url_ok) input = Inl issues \<and>
           (argsSchema a = VaultActionInput url_ok \<longrightarrow> run_action a rt sdk wallet input = Inl issues)))"
proof -
  have 1: "field_accepts CreateVaultInput ''assetAddress'' (JStr s) \<longleftrightarrow> spec_address_format s"
    by (simp add: field_accepts_def field_schema_def CreateVaultInput_def address_string_accepts)
  have 2: "field_accepts CreateVaultInput ''feeRecipient'' (JStr s) \<longleftrightarrow> spec_address_format s"
    by (simp add: field_accepts_def field_schema_def CreateVaultInput_def address_string_accepts)
  have 3: "field_accepts (VaultActionInput url_ok) ''vault_address'' (JStr s) \<longleftrightarrow> spec_address_format s"
    by (simp add: field_accepts_def field_schema_def VaultActionInput_def address_string_accepts)
  have 4: "field_accepts (VaultActionInput url_ok) ''user_address'' (JStr s) \<longleftrightarrow> spec_address_format s"
    by (simp add: field_accepts_def field_schema_def VaultActionInput_def accepts_optional address_string_accepts)
  have 5: "\<exists>issues. safeParse CreateVaultInput input = Inl issues \<and>
           run_action CreateERC4626VaultAction rt sdk wallet input = Inl issues"
    if "\<not> spec_address_format s"
       "get_prop input ''assetAddress'' = JStr s \<or> get_prop input ''feeRecipient'' = JStr s"
  proof -
    have "\<not> accepts CreateVaultInput input"
      using that
      by (auto simp: CreateVaultInput_def accepts_object address_string_accepts)
    then obtain issues where "safeParse CreateVaultInput input = Inl issues"
      by (auto simp: accepts_def split: sum.splits)
    then show ?thesis by (simp add: run_action_def CreateERC4626VaultAction_def)
  qed
  have 6: "\<exists>issues. safeParse (VaultActionInput url_ok) input = Inl issues \<and>
           (argsSchema a = VaultActionInput url_ok \<longrightarrow> run_action a rt sdk wallet input = Inl issues)"
    if "\<not> spec_address_format s"
       "get_prop input ''vault_address'' = JStr s \<or> get_prop input ''user_address'' = JStr s"
  proof -
    have "\<not> accepts (VaultActionInput url_ok) input"
      using that
      by (auto simp: VaultActionInput_def accepts_object address_string_accepts accepts_optional)
    then obtain issues where "safeParse (VaultActionInput url_ok) input = Inl issues"
      by (auto simp: accepts_def split: sum.splits)
    then show ?thesis by (simp add: run_action_def)
  qed
  show ?thesis using 1 2 3 4 5 6 address_re_spec by blast
qed

theorem address_fields_accept_iff_format_witness:
  "spec_address_format VAULT_ADDRESS \<and>
   field_accepts CreateVaultInput ''assetAddress'' (JStr VAULT_ADDRESS) \<and>
   field_accepts (VaultActionInput (\<lambda>u. True)) ''user_address'' (JStr VAULT_ADDRESS) \<and>
   \<not> spec_address_format ''0x123'' \<and>
   get_prop ex_bad_input ''assetAddress'' = JStr ''0x123'' \<and>
   get_prop ex_bad_input ''vault_address'' = JStr ''0x123'' \<and>
   \<not> field_accepts CreateVaultInput ''feeRecipient'' (JStr ''0x123'') \<and>
   (\<exists>issues. safeParse CreateVaultInput ex_bad_input = Inl issues \<and>
      run_action CreateERC4626VaultAction ex_rt ex_sdk (JRef 0) ex_bad_input = Inl issues) \<and>
   (\<exists>issues. safeParse (VaultActionInput (\<lambda>u. True)) ex_bad_input = Inl issues \<and>
      run_action (CreateERC4626VaultAction\<lparr>argsSchema := VaultActionInput (\<lambda>u. True)\<rparr>)
        ex_rt ex_sdk (JRef 0) ex_bad_input = Inl issues)"
proof -
  have good: "spec_address_format VAULT_ADDRESS"
    by (simp add: spec_address_format_def VAULT_ADDRESS_def is_hex_digit_def)
  have bad: "\<not> spec_address_format ''0x123''"
    by (simp add: spec_address_format_def)
  have p: "get_prop ex_bad_input ''assetAddress'' = JStr ''0x123''"
     "get_prop ex_bad_input ''vault_address'' = JStr ''0x123''"
    by (simp_all add: ex_bad_input_def get_prop_def)
  show ?thesis
    using good bad p
      address_fields_accept_iff_format [of VAULT_ADDRESS "\<lambda>u. True"]
      address_fields_accept_iff_format [of "''0x123''" "\<lambda>u. True" ex_bad_input ex_rt ex_sdk "JRef 0"
         "CreateERC4626VaultAction\<lparr>argsSchema := VaultActionInput (\<lambda>u. True)\<rparr>"]
    by simp
qed

text \<open>
  C4. For every number \<open>x\<close>, \<open>CreateVaultInput\<close> accepts \<open>x\<close> as \<open>depositFee\<close>, and
  likewise as \<open>withdrawalFee\<close>, if and only if \<open>0 <= x <= 100\<close> (so \<open>NaN\<close> and both
  infinities are refused with everything else outside the bounds). An input with a
  fee outside the bounds is rejected at validation and the handler is not run on it.
\<close>

theorem fee_fields_accept_iff_in_bounds:
  "(field_accepts CreateVaultInput ''depositFee'' (JNum x) \<longleftrightarrow> num_le (Fin 0) x \<and> num_le x (Fin 100)) \<and>
   (field_accepts CreateVaultInput ''withdrawalFee'' (JNum x) \<longleftrightarrow> num_le (Fin 0) x \<and> num_le x (Fin 100)) \<and>
   (\<not> (num_le (Fin 0) x \<and> num_le x (Fin 100)) \<and>
      (get_prop input ''depositFee'' = JNum x \<or> get_prop input ''withdrawalFee'' = JNum x)
    \<longrightarrow> (\<exists>issues. safeParse CreateVaultInput input = Inl issues \<and>
           run_action CreateERC4626VaultAction rt sdk wallet input = Inl issues))"
proof -
  have 1: "field_accepts CreateVaultInput ''depositFee'' (JNum x) \<longleftrightarrow> num_le (Fin 0) x \<and> num_le x (Fin 100)"
    by (simp add: field_accepts_def field_schema_def CreateVaultInput_def fee_accepts)
  have 2: "field_accepts CreateVaultInput ''withdrawalFee'' (JNum x) \<longleftrightarrow> num_le (Fin 0) x \<and> num_le x (Fin 100)"
    by (simp add: field_accepts_def field_schema_def CreateVaultInput_def fee_accepts)
  have 3: "\<exists>issues. safeParse CreateVaultInput input = Inl issues \<and>
           run_action CreateERC4626VaultAction rt sdk wallet input = Inl issues"
    if "\<not> (num_le (Fin 0) x \<and> num_le x (Fin 100))"
       "get_prop input ''depositFee'' = JNum x \<or> get_prop input ''withdrawalFee'' = JNum x"
  proof -
    have "\<not> accepts CreateVaultInput input"
      using that
      by (auto simp: CreateVaultInput_def accepts_object fee_accepts)
    then obtain issues where "safeParse CreateVaultInput input = Inl issues"
      by (auto simp: accepts_def split: sum.splits)
    then show ?thesis by (simp add: run_action_def CreateERC4626VaultAction_def)
  qed
  show ?thesis using 1 2 3 by blast
qed

theorem fee_fields_accept_iff_in_bounds_witness:
  "field_accepts CreateVaultInput ''depositFee'' (JNum (Fin 100)) \<and>
   field_accepts CreateVaultInput ''withdrawalFee'' (JNum (Fin 0)) \<and>
   \<not> field_accepts CreateVaultInput ''depositFee'' (JNum (Fin 101)) \<and>
   \<not> field_accepts CreateVaultInput ''withdrawalFee'' (JNum (Fin (- 1))) \<and>
   \<not> field_accepts CreateVaultInput ''depositFee'' (JNum NaN) \<and>
   get_prop ex_bad_input ''depositFee'' = JNum (Fin 101) \<and>
   (\<exists>issues. safeParse CreateVaultInput ex_bad_input = Inl issues \<and>
      run_action CreateERC4626VaultAction ex_rt ex_sdk (JRef 0) ex_bad_input = Inl issues)"
proof -
  have p: "get_prop ex_bad_input ''depositFee'' = JNum (Fin 101)"
    by (simp add: ex_bad_input_def get_prop_def)
  show ?thesis
    using p fee_fields_accept_iff_in_bounds [of "Fin 100"] fee_fields_accept_iff_in_bounds [of "Fin 0"]
      fee_fields_accept_iff_in_bounds [of "Fin (- 1)"] fee_fields_accept_iff_in_bounds [of NaN]
      fee_fields_accept_iff_in_bounds [of "Fin 101" ex_bad_input ex_rt ex_sdk "JRef 0"]
    by simp
qed

section \<open>The lower bound of the slippage\<close>

text \<open>
  The schema compares with the double that the literal \<open>0.1\<close> denotes. From
  \<open>2^-4\<close> on, every double is a multiple of \<open>2^-56\<close>, and \<open>2^56 / 10\<close> lies between
  the integers \<open>7205759403792793\<close> and \<open>7205759403792794\<close>, nearer to the second.
  So \<open>DOUBLE_0_1\<close> is the double nearest to one tenth, and a double that is at least
  one tenth is at least \<open>DOUBLE_0_1\<close>.
\<close>

lemma scaled_small:
  fixes m :: int and k :: nat
  assumes "\<bar>m\<bar> < 2 ^ 53" "1 / 16 \<le> (of_int m / 2 ^ k :: rat)"
  shows "k \<le> 56"
proof (rule ccontr)
  assume "\<not> k \<le> 56"
  then have "57 \<le> k" by simp
  then have p: "(2::rat) ^ 57 \<le> 2 ^ k" by (intro power_increasing) simp_all
  from assms(1) have "m < 2 ^ 53" by simp
  then have "(of_int m :: rat) < of_int (2 ^ 53)" by (simp only: of_int_less_iff)
  then have m: "(of_int m :: rat) < 2 ^ 53" by simp
  from assms(2) have "(2::rat) ^ k \<le> 16 * of_int m" by (simp add: field_simps)
  with p have "(2::rat) ^ 57 \<le> 16 * of_int m" by (rule order_trans)
  with m show False by simp
qed

lemma multiple_of_ulp:
  fixes m :: int and k n :: nat
  assumes "k \<le> n"
  shows "(of_int m / 2 ^ k :: rat) * 2 ^ n = of_int (m * 2 ^ (n - k))"
proof -
  have "(2::rat) ^ n = 2 ^ k * 2 ^ (n - k)"
    using assms by (simp flip: power_add)
  then show ?thesis by simp
qed

lemma binary64_scaled:
  assumes "is_binary64 q" "1 / 16 \<le> q"
  shows "\<exists>j::int. q * 2 ^ 56 = of_int j"
proof -
  from assms(1) obtain m :: int and k :: nat where mk: "\<bar>m\<bar> < 2 ^ 53"
    "(k \<le> 1074 \<and> q = of_int m / 2 ^ k) \<or> (k \<le> 971 \<and> q = of_int m * 2 ^ k)"
    unfolding is_binary64_def by blast
  show ?thesis
  proof (cases "q = of_int m * 2 ^ k")
    case True
    then have "q * 2 ^ 56 = of_int (m * 2 ^ k * 2 ^ 56)" by simp
    then show ?thesis by blast
  next
    case False
    with mk(2) have q: "q = of_int m / 2 ^ k" by blast
    with assms(2) mk(1) have "k \<le> 56" using scaled_small [of m k] by simp
    then have "q * 2 ^ 56 = of_int (m * 2 ^ (56 - k))" using q multiple_of_ulp [of k 56 m] by simp
    then show ?thesis by blast
  qed
qed

lemma no_double_between:
  assumes "is_binary64 q" "1 / 10 \<le> q"
  shows "DOUBLE_0_1 \<le> q"
proof (rule ccontr)
  assume "\<not> DOUBLE_0_1 \<le> q"
  then have "q < 3602879701896397 / 2 ^ 55" by (simp add: DOUBLE_0_1_def)
  then have lt: "q * 2 ^ 56 < 7205759403792794" by (simp add: field_simps)
  from assms(2) have "1 / 16 \<le> q" by simp
  from binary64_scaled [OF assms(1) this] obtain j :: int where j: "q * 2 ^ 56 = of_int j" by blast
  from lt j have "(of_int j :: rat) < of_int 7205759403792794" by simp
  then have j1: "j < 7205759403792794" by (simp only: of_int_less_iff)
  from assms(2) have "2 ^ 56 \<le> 10 * (q * 2 ^ 56)" by simp
  with j have "(of_int (2 ^ 56) :: rat) \<le> of_int (10 * j)" by simp
  then have "2 ^ 56 \<le> 10 * j" by (simp only: of_int_le_iff)
  with j1 show False by simp
qed

lemma no_double_below:
  assumes "is_binary64 q" "q < 1 / 10"
  shows "q \<le> DOUBLE_0_1 - 1 / 2 ^ 56"
proof (rule ccontr)
  assume "\<not> q \<le> DOUBLE_0_1 - 1 / 2 ^ 56"
  then have "3602879701896397 / 2 ^ 55 - 1 / 2 ^ 56 < q" by (simp add: DOUBLE_0_1_def)
  then have gt: "7205759403792793 < q * 2 ^ 56" by (simp add: field_simps)
  then have "1 / 16 \<le> q" by (simp add: field_simps)
  from binary64_scaled [OF assms(1) this] obtain j :: int where j: "q * 2 ^ 56 = of_int j" by blast
  from gt j have "(of_int 7205759403792793 :: rat) < of_int j" by simp
  then have j1: "7205759403792793 < j" by (simp only: of_int_less_iff)
  from assms(2) have "10 * (q * 2 ^ 56) < 2 ^ 56" by simp
  with j have "(of_int (10 * j) :: rat) < of_int (2 ^ 56)" by simp
  then have "10 * j < 2 ^ 56" by (simp only: of_int_less_iff)
  with j1 show False by simp
qed

lemma double_0_1_nearest:
  assumes "is_binary64 q"
  shows "\<bar>DOUBLE_0_1 - 1 / 10\<bar> \<le> \<bar>q - 1 / 10\<bar>"
proof (cases "1 / 10 \<le> q")
  case True
  with no_double_between [OF assms] have "DOUBLE_0_1 \<le> q" by simp
  moreover have "1 / 10 \<le> DOUBLE_0_1" by (simp add: DOUBLE_0_1_def)
  ultimately show ?thesis using True by simp
next
  case False
  then have "q < 1 / 10" by simp
  from no_double_below [OF assms this] have "q \<le> DOUBLE_0_1 - 1 / 2 ^ 56" .
  then have "1 / 10 - (DOUBLE_0_1 - 1 / 2 ^ 56) \<le> 1 / 10 - q" by simp
  moreover have "DOUBLE_0_1 - 1 / 10 \<le> 1 / 10 - (DOUBLE_0_1 - 1 / 2 ^ 56)"
    by (simp add: DOUBLE_0_1_def)
  moreover have "1 / 10 \<le> DOUBLE_0_1" by (simp add: DOUBLE_0_1_def)
  ultimately show ?thesis using False by simp
qed

lemma double_0_1_binary64: "is_binary64 DOUBLE_0_1"
  unfolding is_binary64_def DOUBLE_0_1_def
  by (rule exI [of _ 3602879701896397], rule exI [of _ 55]) simp

lemma int_binary64: "\<bar>m\<bar> < 2 ^ 53 \<Longrightarrow> is_binary64 (of_int m)"
  unfolding is_binary64_def by (rule exI [of _ m], rule exI [of _ 0]) simp

lemma slippage_iff:
  "accepts (ZNumber [Min (Fin DOUBLE_0_1) None, Max (Fin 100) None]) (JNum x) \<longleftrightarrow> num_le (Fin DOUBLE_0_1) x \<and> num_le x (Fin 100)"
  by (cases x) (auto simp: accepts_def num_gt_def)

lemma slippage_tenth:
  assumes "is_double x"
  shows "num_le (Fin DOUBLE_0_1) x \<longleftrightarrow> num_le (Fin (1 / 10)) x"
proof (cases x)
  case (Fin q)
  have "1 / 10 \<le> DOUBLE_0_1" by (simp add: DOUBLE_0_1_def)
  then show ?thesis using Fin assms no_double_between [of q] by (auto simp: is_double_def)
qed simp_all

text \<open>
  C5. For every number \<open>x\<close>, \<open>GorilliMemeTradeInput\<close> accepts \<open>x\<close> as
  \<open>slippagePercentage\<close> if and only if \<open>0.1 <= x <= 100\<close>: the comparison is with the
  double \<open>0.1\<close>, and for every \<open>x\<close> that is a double this is the same as the
  comparison with one tenth. In particular 0 and every value above 100 are rejected.
\<close>

theorem slippage_accepts_iff_in_bounds:
  "(field_accepts GorilliMemeTradeInput ''slippagePercentage'' (JNum x)
      \<longleftrightarrow> num_le (Fin DOUBLE_0_1) x \<and> num_le x (Fin 100)) \<and>
   (is_double x \<longrightarrow>
      (field_accepts GorilliMemeTradeInput ''slippagePercentage'' (JNum x)
         \<longleftrightarrow> num_le (Fin (1 / 10)) x \<and> num_le x (Fin 100))) \<and>
   \<not> field_accepts GorilliMemeTradeInput ''slippagePercentage'' (JNum (Fin 0)) \<and>
   (num_gt x (Fin 100) \<longrightarrow> \<not> field_accepts GorilliMemeTradeInput ''slippagePercentage'' (JNum x))"
proof -
  have 1: "field_accepts GorilliMemeTradeInput ''slippagePercentage'' (JNum y)
      \<longleftrightarrow> num_le (Fin DOUBLE_0_1) y \<and> num_le y (Fin 100)" for y
    by (simp add: field_accepts_def field_schema_def GorilliMemeTradeInput_def slippage_iff)
  have 2: "\<not> num_le (Fin DOUBLE_0_1) (Fin 0)" by (simp add: DOUBLE_0_1_def)
  have 3: "num_gt x (Fin 100) \<Longrightarrow> \<not> num_le x (Fin 100)"
    by (cases x) (simp_all add: num_gt_def)
  show ?thesis using 1 2 3 slippage_tenth [of x] by blast
qed

theorem slippage_accepts_iff_in_bounds_witness:
  "is_double (Fin DOUBLE_0_1) \<and> is_double (Fin 100) \<and> is_double (Fin 101) \<and> num_gt (Fin 101) (Fin 100) \<and>
   field_accepts GorilliMemeTradeInput ''slippagePercentage'' (JNum (Fin DOUBLE_0_1)) \<and>
   field_accepts GorilliMemeTradeInput ''slippagePercentage'' (JNum (Fin 100)) \<and>
   \<not> field_accepts GorilliMemeTradeInput ''slippagePercentage'' (JNum (Fin 101)) \<and>
   \<not> field_accepts GorilliMemeTradeInput ''slippagePercentage'' (JNum (Fin 0))"
proof -
  have d: "is_double (Fin DOUBLE_0_1)" by (simp add: is_double_def double_0_1_binary64)
  have e: "is_double (Fin 100)" "is_double (Fin 101)"
    using int_binary64 [of 100] int_binary64 [of 101] by (simp_all add: is_double_def)
  have g: "num_gt (Fin 101) (Fin 100)" by (simp add: num_gt_def)
  have t: "(1 / 10 :: rat) \<le> DOUBLE_0_1" "DOUBLE_0_1 \<le> 100" by (simp_all add: DOUBLE_0_1_def)
  show ?thesis
    using d e g t slippage_accepts_iff_in_bounds [of "Fin DOUBLE_0_1"]
      slippage_accepts_iff_in_bounds [of "Fin 100"] slippage_accepts_iff_in_bounds [of "Fin 101"]
    by simp
qed

section \<open>Running the effects\<close>

lemma io_bind_perform:
  "io_bind (perform sdk c) f =
     (case sdk c of Inl e \<Rightarrow> (Inl e, [c]) | Inr v \<Rightarrow> (fst (f v), c # snd (f v)))"
  by (simp add: io_bind_def perform_def split: sum.splits prod.splits)

lemma io_bind_Inr: "io_bind (Inr x, t) f = (fst (f x), t @ snd (f x))"
  by (simp add: io_bind_def split: prod.splits)

lemma io_bind_Inl: "io_bind (Inl e, t) f = (Inl e, t)"
  by (simp add: io_bind_def)

lemma io_bind_ret: "io_bind (io_ret x) f = f x"
  by (simp add: io_bind_def io_ret_def split: prod.splits)

lemma io_bind_throw: "io_bind (io_throw e) f = io_throw e"
  by (simp add: io_bind_def io_throw_def)

lemma try_catch_Inl: "try_catch (Inl e, t) h = (fst (h e), t @ snd (h e))"
  by (simp add: try_catch_def split: prod.splits)

lemma try_catch_Inr: "try_catch (Inr x, t) h = (Inr x, t)"
  by (simp add: try_catch_def)


lemma io_bind_callsE:
  assumes "c \<in> set (snd (io_bind m f))"
  obtains "c \<in> set (snd m)" | x where "fst m = Inr x" "c \<in> set (snd (f x))"
  using assms by (auto simp: io_bind_def split: prod.splits sum.splits)


lemma template_str_calls:
  "c \<in> set (snd (template_str rt sdk v)) \<Longrightarrow> \<exists>u. c = ToString u"
  by (auto simp: template_str_def io_ret_def io_bind_perform io_throw_def
      split: option.splits sum.splits)





section \<open>Errors at the boundary of each handler\<close>

text \<open>
  What is thrown inside a \<open>try\<close> block never leaves \<open>gorilli_trade\<close> or
  \<open>vaultInteraction\<close>, and leaves \<open>createERC4626Vault\<close> only as a new \<open>Error\<close> whose
  message starts with \<open>Failed to deploy ERC-4626 Vault: \<close>.
\<close>

lemma vaultInteraction_catch_returns: "\<exists>s. fst (vaultInteraction_catch e) = Inr s"
  by (simp add: vaultInteraction_catch_def io_ret_def)

lemma vaultInteraction_never_throws: "\<exists>s. fst (vaultInteraction rt sdk w va rpc act amt ua) = Inr s"
proof (cases "vaultInteraction_try rt sdk w va rpc act amt ua")
  case (Pair r t)
  then show ?thesis
    using vaultInteraction_catch_returns
    by (cases r) (simp_all add: vaultInteraction_def try_catch_Inl try_catch_Inr)
qed

lemma gorilli_trade_never_throws: "\<exists>s. fst (gorilli_trade rt sdk w a) = Inr s"
proof (cases "gorilli_trade_try rt sdk w a")
  case (Pair r t)
  then show ?thesis
    by (cases r) (auto simp: gorilli_trade_def try_catch_def io_ret_def split: prod.splits)
qed

lemma gorilli_trade_error_returned:
  assumes "gorilli_trade_try rt sdk w a = (Inl e, t)"
  shows "gorilli_trade rt sdk w a = (Inr (''Error trading assets: '' @ thrown_to_string e), t)"
  using assms by (simp add: gorilli_trade_def try_catch_Inl io_ret_def)

lemma createERC4626Vault_throws_prefixed:
  assumes "fst (createERC4626Vault rt sdk a) = Inl e"
  shows "\<exists>m. e = new_Error (''Failed to deploy ERC-4626 Vault: '' @ m)"
proof (cases "createERC4626Vault_try rt sdk a")
  case (Pair r t)
  then show ?thesis using assms
    by (cases r) (auto simp: createERC4626Vault_def try_catch_def createERC4626Vault_catch_def
        io_throw_def split: prod.splits)
qed

lemma createERC4626Vault_rethrows:
  assumes "createERC4626Vault_try rt sdk a = (Inl e, t)"
  shows "createERC4626Vault rt sdk a =
     (Inl (new_Error (''Failed to deploy ERC-4626 Vault: '' @
             (case e of ErrorObj n m \<Rightarrow> m | NonError v \<Rightarrow> ''Unknown error''))), t)"
  using assms
  by (cases e) (simp_all add: createERC4626Vault_def try_catch_def createERC4626Vault_catch_def io_throw_def)

text \<open>
  \<open>gorilliMemeTrade\<close> returns an error string for whatever its \<open>try\<close> block throws,
  but it throws itself exactly when the conversion of the minimum output to \<open>BigInt\<close>
  does, which happens before the \<open>try\<close> block.
\<close>

lemma gorilliMemeTrade_sdk_error_returned:
  assumes "minAmountOut_of rt (amountIn a) (slippagePercentage a) = Inr m"
  shows "\<exists>s. fst (gorilliMemeTrade rt sdk w a) = Inr s"
proof (cases "gorilliMemeTrade_try rt sdk w a (tokenOut_of (action a)) (deadline_of rt) m")
  case (Pair r t)
  then show ?thesis using assms
    by (cases r) (auto simp: gorilliMemeTrade_def try_catch_def io_ret_def split: prod.splits)
qed

lemma gorilliMemeTrade_error_returned:
  assumes "minAmountOut_of rt (amountIn a) (slippagePercentage a) = Inr m"
    and "gorilliMemeTrade_try rt sdk w a (tokenOut_of (action a)) (deadline_of rt) m = (Inl e, t)"
  shows "gorilliMemeTrade rt sdk w a =
     (Inr (''Error executing trade: '' @
            (case e of ErrorObj n msg \<Rightarrow> msg | NonError v \<Rightarrow> ''Unknown error'')), t)"
  using assms by (cases e) (simp_all add: gorilliMemeTrade_def try_catch_Inl io_ret_def)

lemma gorilliMemeTrade_throws_iff:
  "(\<exists>e. fst (gorilliMemeTrade rt sdk w a) = Inl e) \<longleftrightarrow>
   (\<exists>e. minAmountOut_of rt (amountIn a) (slippagePercentage a) = Inl e)"
proof (cases "minAmountOut_of rt (amountIn a) (slippagePercentage a)")
  case (Inl e)
  then show ?thesis by (simp add: gorilliMemeTrade_def io_throw_def)
next
  case (Inr m)
  then show ?thesis using gorilliMemeTrade_sdk_error_returned [OF Inr, of sdk w] by auto
qed

lemma number_abc: "Number r ''abc'' = NaN"
  by (simp add: Number_def trim_def is_ws_def parse_nondecimal_def parse_sign_def
      parse_unsigned_decimal_def split_at_def parse_mantissa_def parse_digits_def digit_in_def
      parse_exponent_def)

lemma num_mul_NaN: "num_mul r NaN y = NaN"
  by (simp add: num_mul_def)

lemma ex_meme_input_abc_valid:
  "safeParse GorilliMemeTradeInput ex_meme_input_abc = Inr ex_meme_input_abc"
  "meme_trade_args_of ex_meme_input_abc = \<lparr>action = BUY, amountIn = ''abc'', slippagePercentage = Fin 1\<rparr>"
  by (simp_all add: GorilliMemeTradeInput_def ex_meme_input_abc_def get_prop_def num_gt_def
      DOUBLE_0_1_def meme_trade_args_of_def str_of_def num_of_def)

text \<open>
  C1. Every handler catches errors at its boundary: \<open>createERC4626Vault\<close> re-throws
  with a prefixed message, and \<open>gorilli_trade\<close>, \<open>gorilliMemeTrade\<close> and
  \<open>vaultInteraction\<close> never propagate an exception but return an error string. This
  fails for \<open>gorilliMemeTrade\<close>: on the arguments
  \<open>{action: "BUY", amountIn: "abc", slippagePercentage: 1}\<close>, which its schema
  accepts, \<open>Number("abc")\<close> is \<open>NaN\<close>, \<open>BigInt(NaN)\<close> throws a \<open>RangeError\<close> before
  the \<open>try\<close> statement, no call is made, and the exception leaves the function,
  whatever the runtime and the SDK are.
\<close>

theorem gorilliMemeTrade_throws_before_try:
  "gorilliMemeTrade rt sdk wallet \<lparr>action = BUY, amountIn = ''abc'', slippagePercentage = Fin 1\<rparr> =
     (Inl (ErrorObj ''RangeError''
        (''The number '' @ num_to_string rt NaN @
         '' cannot be converted to a BigInt because it is not an integer'')), [])"
  by (simp add: gorilliMemeTrade_def minAmountOut_of_def number_abc num_mul_NaN Math_floor_def
      BigInt_def io_throw_def)

theorem gorilliMemeTrade_throws_before_try_witness:
  "safeParse GorilliMemeTradeInput ex_meme_input_abc = Inr ex_meme_input_abc \<and>
   gorilliMemeTrade ex_rt ex_sdk (JRef 0) (meme_trade_args_of ex_meme_input_abc) =
     (Inl (ErrorObj ''RangeError''
        ''The number NaN cannot be converted to a BigInt because it is not an integer''), [])"
  using gorilliMemeTrade_throws_before_try [of ex_rt ex_sdk "JRef 0"] ex_meme_input_abc_valid
  by (simp add: ex_rt_def ex_num_text_def)

text \<open>
  C3. For every value \<open>e\<close> thrown inside the \<open>try\<close> block of \<open>vaultInteraction\<close>:
  if \<open>e\<close> is an \<open>Error\<close> whose message contains \<open>insufficient balance\<close> the function
  returns \<open>Error: Insufficient balance for the requested operation\<close>; else if it
  contains \<open>gas required exceeds allowance\<close> it returns
  \<open>Error: Transaction would fail - gas estimation failed\<close>; else if it contains
  \<open>network\<close> it returns
  \<open>Error: RPC connection failed - please check your connection and try again\<close>;
  otherwise it returns \<open>Error: \<close> followed by the message; and when \<open>e\<close> is not an
  \<open>Error\<close> it returns \<open>An unknown error occurred\<close>. The calls made are those of the
  \<open>try\<close> block.
\<close>

theorem vaultInteraction_error_text:
  assumes "vaultInteraction_try rt sdk w va rpc act amt ua = (Inl e, t)"
  shows "vaultInteraction rt sdk w va rpc act amt ua =
     (Inr (case e of
             ErrorObj n m \<Rightarrow>
               if str_includes m ''insufficient balance''
               then ''Error: Insufficient balance for the requested operation''
               else if str_includes m ''gas required exceeds allowance''
               then ''Error: Transaction would fail - gas estimation failed''
               else if str_includes m ''network''
               then ''Error: RPC connection failed - please check your connection and try again''
               else ''Error: '' @ m
           | NonError v \<Rightarrow> ''An unknown error occurred''), t)"
  using assms
  by (cases e) (simp_all add: vaultInteraction_def try_catch_def vaultInteraction_catch_def io_ret_def)

theorem vaultInteraction_error_text_witness:
  "vaultInteraction_try ex_rt ex_sdk_failing (JRef 0) VAULT_ADDRESS ''https://rpc'' ''totalAssets'' None None =
     (Inl (new_Error ''execution reverted: insufficient balance''),
      [Construct ''Contract'' [JStr VAULT_ADDRESS, ERC4626_ABI, JRef 0], Invoke (JRef 1) ''totalAssets'' []]) \<and>
   vaultInteraction ex_rt ex_sdk_failing (JRef 0) VAULT_ADDRESS ''https://rpc'' ''totalAssets'' None None =
     (Inr ''Error: Insufficient balance for the requested operation'',
      [Construct ''Contract'' [JStr VAULT_ADDRESS, ERC4626_ABI, JRef 0], Invoke (JRef 1) ''totalAssets'' []])"
proof -
  have h: "vaultInteraction_try ex_rt ex_sdk_failing (JRef 0) VAULT_ADDRESS ''https://rpc'' ''totalAssets'' None None =
     (Inl (new_Error ''execution reverted: insufficient balance''),
      [Construct ''Contract'' [JStr VAULT_ADDRESS, ERC4626_ABI, JRef 0], Invoke (JRef 1) ''totalAssets'' []])"
    by (simp add: vaultInteraction_try_def io_bind_perform ex_sdk_failing_def vault_switch_def)
  show ?thesis
    using h vaultInteraction_error_text [OF h [unfolded new_Error_def]]
    by (simp add: new_Error_def str_includes_def sublist_code)
qed

section \<open>Summaries of successful calls\<close>

lemma inc_here: "str_includes (x @ r) x"
  by (simp add: str_includes_def)


lemma inc_app: "str_includes r x \<Longrightarrow> str_includes (p @ r) x"
  unfolding str_includes_def sublist_def by (metis append.assoc)



lemma createERC4626Vault_mock_returns:
  "\<exists>msg. createERC4626Vault_mock rt a = (Inr msg, []) \<and>
     str_includes msg (name a) \<and> str_includes msg (symbol a) \<and>
     str_includes msg (assetAddress a) \<and> str_includes msg (feeRecipient a) \<and>
     str_includes msg (num_to_string rt (depositFee a)) \<and>
     str_includes msg (num_to_string rt (withdrawalFee a))"
proof -
  define msg where "msg =
     ''Successfully created ERC-4626 Vault:'' @ nl @
     ''      Name: '' @ name a @ nl @
     ''      Symbol: '' @ symbol a @ nl @
     ''      Asset Address: '' @ assetAddress a @ nl @
     ''      Fee Recipient: '' @ feeRecipient a @ nl @
     ''      Deposit Fee: '' @ num_to_string rt (depositFee a) @ ''%'' @ nl @
     ''      Withdrawal Fee: '' @ num_to_string rt (withdrawalFee a) @ ''%''"
  have "createERC4626Vault_mock rt a = (Inr msg, [])"
    unfolding createERC4626Vault_mock_def io_ret_def try_catch_Inr msg_def by (rule refl)
  moreover have "str_includes msg (name a)" unfolding msg_def by (rule inc_here | rule inc_app)+
  moreover have "str_includes msg (symbol a)" unfolding msg_def by (rule inc_here | rule inc_app)+
  moreover have "str_includes msg (assetAddress a)" unfolding msg_def by (rule inc_here | rule inc_app)+
  moreover have "str_includes msg (feeRecipient a)" unfolding msg_def by (rule inc_here | rule inc_app)+
  moreover have "str_includes msg (num_to_string rt (depositFee a))"
    unfolding msg_def by (rule inc_here | rule inc_app)+
  moreover have "str_includes msg (num_to_string rt (withdrawalFee a))"
    unfolding msg_def by (rule inc_here | rule inc_app)+
  ultimately show ?thesis by blast
qed



lemma ex_minAmountOut: "minAmountOut_of ex_rt (amountIn ex_meme_args) (slippagePercentage ex_meme_args) = Inr 990"
  by (simp add: minAmountOut_of_def ex_rt_def ex_meme_args_def Number_def trim_def is_ws_def
      parse_nondecimal_def parse_sign_def parse_unsigned_decimal_def split_at_def
      parse_mantissa_def parse_digits_def digit_in_def parse_exponent_def num_div_def num_mul_def
      Math_floor_def BigInt_def)

lemma ex_meme_trace:
  "snd (gorilliMemeTrade ex_rt ex_sdk (JRef 0) ex_meme_args) =
     [Construct ''Decimal'' [JStr ''1000''],
      Invoke (JRef 0) ''invokeContract''
        [invocation_options BRETT_ADDRESS ''1000'' 990 (deadline_of ex_rt) (JRef 1)],
      Invoke (JRef 2) ''wait'' [],
      Invoke (JRef 2) ''getTransactionHash'' [],
      ToString (JRef 2)]"
proof -
  have "minAmountOut_of ex_rt ''1000'' (Fin 1) = Inr 990"
    using ex_minAmountOut by (simp add: ex_meme_args_def)
  then show ?thesis
    by (simp add: gorilliMemeTrade_def ex_meme_args_def tokenOut_of_def
      gorilliMemeTrade_try_def io_bind_perform ex_sdk_def template_str_def prim_text_def io_bind_Inr io_ret_def
      try_catch_Inr)
qed












section \<open>The dispatch of vaultInteraction\<close>

lemma template_str_conversions: "list_all is_conversion (snd (template_str rt sdk v))"
  by (auto simp: template_str_def io_ret_def io_bind_perform io_throw_def
      split: option.splits sum.splits)

lemma to_string_text_conversions: "list_all is_conversion (snd (to_string_text rt sdk v))"
  using template_str_conversions
  by (auto simp: to_string_text_def io_bind_perform split: sum.splits)

lemma template_then_ret_conversions:
  "list_all is_conversion (snd (io_bind (template_str rt sdk h) (\<lambda>t. io_ret (f t))))"
  using template_str_conversions [of rt sdk h]
  by (cases "template_str rt sdk h") (auto simp: io_bind_def io_ret_def split: sum.splits)

lemma text_then_ret_conversions:
  "list_all is_conversion (snd (io_bind (to_string_text rt sdk v) (\<lambda>t. io_ret (f t))))"
  using to_string_text_conversions [of rt sdk v]
  by (cases "to_string_text rt sdk v") (auto simp: io_bind_def io_ret_def split: sum.splits)

lemma vault_branch_calls:
  "snd (vault_branch rt sdk c act amt ua k) = [] \<or>
   (\<exists>m args rest. vault_method k = Some m \<and>
      snd (vault_branch rt sdk c act amt ua k) = Invoke c m args # rest \<and>
      list_all is_conversion rest)"
proof (cases k)
  case CaseDeposit
  then show ?thesis by (auto simp: io_bind_perform io_throw_def template_then_ret_conversions split: sum.splits)
next
  case CaseWithdraw
  then show ?thesis by (auto simp: io_bind_perform io_throw_def template_then_ret_conversions split: sum.splits)
next
  case CaseBalance
  then show ?thesis by (auto simp: io_bind_perform io_throw_def text_then_ret_conversions split: sum.splits)
next
  case CasePreviewDeposit
  then show ?thesis by (auto simp: io_bind_perform io_throw_def text_then_ret_conversions split: sum.splits)
next
  case CasePreviewWithdraw
  then show ?thesis by (auto simp: io_bind_perform io_throw_def text_then_ret_conversions split: sum.splits)
next
  case CaseTotalAssets
  then show ?thesis by (auto simp: io_bind_perform io_throw_def text_then_ret_conversions split: sum.splits)
next
  case CaseTotalSupply
  then show ?thesis by (auto simp: io_bind_perform io_throw_def text_then_ret_conversions split: sum.splits)
next
  case CaseDefault
  then show ?thesis by (simp add: io_throw_def)
qed

lemma vaultInteraction_catch_no_calls: "snd (vaultInteraction_catch e) = []"
  by (simp add: vaultInteraction_catch_def io_ret_def)

lemma vaultInteraction_calls:
  assumes "sdk (Construct ''Contract'' [JStr va, ERC4626_ABI, w]) = Inr c"
  shows "snd (vaultInteraction rt sdk w va rpc act amt ua) =
           Construct ''Contract'' [JStr va, ERC4626_ABI, w] #
           snd (vault_branch rt sdk c act amt ua (vault_switch act))"
proof (cases "vault_branch rt sdk c act amt ua (vault_switch act)")
  case (Pair r t)
  then show ?thesis using assms vaultInteraction_catch_no_calls
    by (cases r) (simp_all add: vaultInteraction_def vaultInteraction_try_def io_bind_perform
        try_catch_Inl try_catch_Inr)
qed

lemma ex_vault_totalAssets:
  "vaultInteraction ex_rt ex_sdk (JRef 0) VAULT_ADDRESS ''https://rpc'' ''totalAssets'' None None =
     (Inr ''Total assets in vault: 0xabc'',
      [Construct ''Contract'' [JStr VAULT_ADDRESS, ERC4626_ABI, JRef 0],
       Invoke (JRef 1) ''totalAssets'' [], Invoke (JRef 2) ''toString'' [], ToString (JRef 2)])"
  by (simp add: vaultInteraction_def vaultInteraction_try_def io_bind_perform ex_sdk_def
      vault_switch_def to_string_text_def template_str_def prim_text_def io_bind_Inr io_ret_def try_catch_Inr)

lemma vault_case_UNIV:
  "(UNIV :: vault_case set) =
     {CaseDeposit, CaseWithdraw, CaseBalance, CasePreviewDeposit, CasePreviewWithdraw,
      CaseTotalAssets, CaseTotalSupply, CaseDefault}"
  by (auto intro: vault_case.exhaust)

lemma range_vault_switch: "range vault_switch = UNIV"
proof -
  have "c \<in> range vault_switch" for c
  proof (cases c)
    case CaseDeposit then show ?thesis by (intro image_eqI [of _ _ "''deposit''"]) (simp_all add: vault_switch_def)
  next
    case CaseWithdraw then show ?thesis by (intro image_eqI [of _ _ "''withdraw''"]) (simp_all add: vault_switch_def)
  next
    case CaseBalance then show ?thesis by (intro image_eqI [of _ _ "''balance''"]) (simp_all add: vault_switch_def)
  next
    case CasePreviewDeposit then show ?thesis by (intro image_eqI [of _ _ "''previewDeposit''"]) (simp_all add: vault_switch_def)
  next
    case CasePreviewWithdraw then show ?thesis by (intro image_eqI [of _ _ "''previewWithdraw''"]) (simp_all add: vault_switch_def)
  next
    case CaseTotalAssets then show ?thesis by (intro image_eqI [of _ _ "''totalAssets''"]) (simp_all add: vault_switch_def)
  next
    case CaseTotalSupply then show ?thesis by (intro image_eqI [of _ _ "''totalSupply''"]) (simp_all add: vault_switch_def)
  next
    case CaseDefault then show ?thesis by (intro image_eqI [of _ _ "''''"]) (simp_all add: vault_switch_def)
  qed
  then show ?thesis by blast
qed

lemma card_range_vault_switch: "card (range vault_switch) = 8"
  by (simp add: range_vault_switch vault_case_UNIV)

text \<open>
  C7, as stated: the dispatch is a switch of twelve branches and the supported vault
  actions are twelve. The list of supported actions has seven entries and the switch
  selects among eight branches, so neither count is twelve.
\<close>

theorem vault_dispatch_not_twelve:
  "length VAULT_ACTIONS \<noteq> 12 \<and> card (set VAULT_ACTIONS) \<noteq> 12 \<and> card (range vault_switch) \<noteq> 12"
  by (simp add: card_range_vault_switch) (simp add: VAULT_ACTIONS_def)

text \<open>
  C7, amended: the supported vault actions are seven, pairwise different; the switch
  has one case label for each of them and a default branch, eight branches in all;
  the default branch is taken exactly for an action outside the seven and calls no
  method. Once the contract object is constructed, a run makes no further call, or
  exactly one call of the method of its case on the contract, followed only by
  conversions of what that call returned: nothing is retried, cached or reordered.
\<close>

theorem vault_dispatch_seven_cases:
  "length VAULT_ACTIONS = 7 \<and> distinct VAULT_ACTIONS \<and> card (set VAULT_ACTIONS) = 7 \<and>
   card (range vault_switch) = 8 \<and>
   (vault_switch act = CaseDefault \<longleftrightarrow> act \<notin> set VAULT_ACTIONS) \<and>
   (vault_method (vault_switch act) = None \<longleftrightarrow> act \<notin> set VAULT_ACTIONS) \<and>
   (sdk (Construct ''Contract'' [JStr va, ERC4626_ABI, w]) = Inr c \<longrightarrow>
      snd (vaultInteraction rt sdk w va rpc act amt ua) =
        [Construct ''Contract'' [JStr va, ERC4626_ABI, w]] \<or>
      (\<exists>m args rest. vault_method (vault_switch act) = Some m \<and>
         snd (vaultInteraction rt sdk w va rpc act amt ua) =
           [Construct ''Contract'' [JStr va, ERC4626_ABI, w], Invoke c m args] @ rest \<and>
         list_all is_conversion rest))"
proof -
  have "length VAULT_ACTIONS = 7" "distinct VAULT_ACTIONS" "card (set VAULT_ACTIONS) = 7"
    by (simp_all add: VAULT_ACTIONS_def)
  moreover have "vault_switch act = CaseDefault \<longleftrightarrow> act \<notin> set VAULT_ACTIONS"
    by (simp add: vault_switch_def VAULT_ACTIONS_def)
  moreover have "vault_method (vault_switch act) = None \<longleftrightarrow> act \<notin> set VAULT_ACTIONS"
    by (simp add: vault_switch_def VAULT_ACTIONS_def)
  moreover have "snd (vaultInteraction rt sdk w va rpc act amt ua) =
        [Construct ''Contract'' [JStr va, ERC4626_ABI, w]] \<or>
      (\<exists>m args rest. vault_method (vault_switch act) = Some m \<and>
         snd (vaultInteraction rt sdk w va rpc act amt ua) =
           [Construct ''Contract'' [JStr va, ERC4626_ABI, w], Invoke c m args] @ rest \<and>
         list_all is_conversion rest)"
    if "sdk (Construct ''Contract'' [JStr va, ERC4626_ABI, w]) = Inr c"
    using that vaultInteraction_calls [where sdk = sdk and va = va and w = w and c = c and rt = rt
        and rpc = rpc and act = act and amt = amt and ua = ua]
      vault_branch_calls [of rt sdk c act amt ua "vault_switch act"]
    by auto
  ultimately show ?thesis using card_range_vault_switch by blast
qed

theorem vault_dispatch_seven_cases_witness:
  "length VAULT_ACTIONS = 7 \<and> card (range vault_switch) = 8 \<and>
   vault_switch ''deposit'' = CaseDeposit \<and> ''deposit'' \<in> set VAULT_ACTIONS \<and>
   vault_switch ''stake'' = CaseDefault \<and> ''stake'' \<notin> set VAULT_ACTIONS \<and>
   ex_sdk (Construct ''Contract'' [JStr VAULT_ADDRESS, ERC4626_ABI, JRef 0]) = Inr (JRef 1) \<and>
   vault_method (vault_switch ''totalAssets'') = Some ''totalAssets'' \<and>
   snd (vaultInteraction ex_rt ex_sdk (JRef 0) VAULT_ADDRESS ''https://rpc'' ''totalAssets'' None None) =
     [Construct ''Contract'' [JStr VAULT_ADDRESS, ERC4626_ABI, JRef 0],
      Invoke (JRef 1) ''totalAssets'' []] @ [Invoke (JRef 2) ''toString'' [], ToString (JRef 2)] \<and>
   list_all is_conversion [Invoke (JRef 2) ''toString'' [], ToString (JRef 2)]"
proof -
  have h: "ex_sdk (Construct ''Contract'' [JStr VAULT_ADDRESS, ERC4626_ABI, JRef 0]) = Inr (JRef 1)"
    by (simp add: ex_sdk_def)
  show ?thesis
    using h ex_vault_totalAssets
      vault_dispatch_seven_cases [of "''deposit''"]
      vault_dispatch_seven_cases [of "''stake''"]
      vault_dispatch_seven_cases [where act = "''totalAssets''" and sdk = ex_sdk
        and va = VAULT_ADDRESS and w = "JRef 0" and c = "JRef 1" and rt = ex_rt
        and rpc = "''https://rpc''" and amt = None and ua = None]
    by (simp add: vault_switch_def)
qed

text \<open>
  The contract object is constructed inside the \<open>try\<close> statement, before the \<open>switch\<close>.
  When the constructor throws, the \<open>catch\<close> clause turns its error into the result and
  the preconditions are not reached.
\<close>

lemma vaultInteraction_constructor_throws:
  assumes "sdk (Construct ''Contract'' [JStr va, ERC4626_ABI, w]) = Inl e"
  shows "vaultInteraction rt sdk w va rpc act amt ua =
           (fst (vaultInteraction_catch e), [Construct ''Contract'' [JStr va, ERC4626_ABI, w]])"
  using assms
  by (simp add: vaultInteraction_def vaultInteraction_try_def io_bind_perform try_catch_Inl
      vaultInteraction_catch_no_calls)

text \<open>
  C9, as stated: for \<open>deposit\<close>, \<open>vaultInteraction\<close> returns
  \<open>Error: Amount and user address required for deposits\<close> whenever the amount is 0.
  This fails when the constructor of the contract object throws: with an amount of 0
  and a constructor that throws a \<open>TypeError\<close> with the message \<open>invalid address\<close>,
  the function returns \<open>Error: invalid address\<close>.
\<close>

theorem vault_precondition_not_reached:
  "vaultInteraction ex_rt ex_sdk_no_contract (JRef 0) VAULT_ADDRESS ''https://rpc'' ''deposit''
       (Some (Fin 0)) (Some BRETT_ADDRESS) =
     (Inr ''Error: invalid address'', [Construct ''Contract'' [JStr VAULT_ADDRESS, ERC4626_ABI, JRef 0]]) \<and>
   fst (vaultInteraction ex_rt ex_sdk_no_contract (JRef 0) VAULT_ADDRESS ''https://rpc'' ''deposit''
       (Some (Fin 0)) (Some BRETT_ADDRESS)) \<noteq>
     Inr ''Error: Amount and user address required for deposits''"
  by (simp add: vaultInteraction_def vaultInteraction_try_def io_bind_perform ex_sdk_no_contract_def
      try_catch_Inl vaultInteraction_catch_def io_ret_def str_includes_def sublist_code)

text \<open>
  C9, amended. Provided the construction of the contract object returns,
  \<open>vaultInteraction\<close> checks the preconditions of the action before it calls any
  method of the contract. For \<open>deposit\<close> (respectively \<open>withdraw\<close>) it returns
  \<open>Error: Amount and user address required for deposits\<close> (respectively
  \<open>... for withdrawals\<close>) whenever the amount is undefined, the amount is 0 or the user
  address is undefined, so that an amount of exactly 0 is rejected as if it were
  missing; \<open>balance\<close> without a user address, and \<open>previewDeposit\<close> and
  \<open>previewWithdraw\<close> without a non-zero amount, return the error string that names
  what is missing; the construction is the only call made. When the construction
  throws, the function returns what its \<open>catch\<close> clause makes of that error, for every
  action, and the construction is again the only call made. So in all these cases,
  whether the construction returns or throws, no method is called.
\<close>

theorem vault_preconditions_before_calls:
  "(sdk (Construct ''Contract'' [JStr va, ERC4626_ABI, w]) = Inr c \<longrightarrow>
      (amt = None \<or> amt = Some (Fin 0) \<or> ua = None \<longrightarrow>
         vaultInteraction rt sdk w va rpc ''deposit'' amt ua =
           (Inr ''Error: Amount and user address required for deposits'',
            [Construct ''Contract'' [JStr va, ERC4626_ABI, w]]) \<and>
         vaultInteraction rt sdk w va rpc ''withdraw'' amt ua =
           (Inr ''Error: Amount and user address required for withdrawals'',
            [Construct ''Contract'' [JStr va, ERC4626_ABI, w]])) \<and>
      (ua = None \<longrightarrow>
         vaultInteraction rt sdk w va rpc ''balance'' amt ua =
           (Inr ''Error: User address required for balance queries'',
            [Construct ''Contract'' [JStr va, ERC4626_ABI, w]])) \<and>
      (amt = None \<or> amt = Some (Fin 0) \<longrightarrow>
         vaultInteraction rt sdk w va rpc ''previewDeposit'' amt ua =
           (Inr ''Error: Amount required for deposit preview'',
            [Construct ''Contract'' [JStr va, ERC4626_ABI, w]]) \<and>
         vaultInteraction rt sdk w va rpc ''previewWithdraw'' amt ua =
           (Inr ''Error: Amount required for withdrawal preview'',
            [Construct ''Contract'' [JStr va, ERC4626_ABI, w]]))) \<and>
   (sdk (Construct ''Contract'' [JStr va, ERC4626_ABI, w]) = Inl e \<longrightarrow>
      vaultInteraction rt sdk w va rpc act amt ua =
        (fst (vaultInteraction_catch e), [Construct ''Contract'' [JStr va, ERC4626_ABI, w]])) \<and>
   (amt = None \<or> amt = Some (Fin 0) \<or> ua = None \<longrightarrow>
      \<not> list_ex is_method_call (snd (vaultInteraction rt sdk w va rpc ''deposit'' amt ua)) \<and>
      \<not> list_ex is_method_call (snd (vaultInteraction rt sdk w va rpc ''withdraw'' amt ua))) \<and>
   (ua = None \<longrightarrow>
      \<not> list_ex is_method_call (snd (vaultInteraction rt sdk w va rpc ''balance'' amt ua))) \<and>
   (amt = None \<or> amt = Some (Fin 0) \<longrightarrow>
      \<not> list_ex is_method_call (snd (vaultInteraction rt sdk w va rpc ''previewDeposit'' amt ua)) \<and>
      \<not> list_ex is_method_call (snd (vaultInteraction rt sdk w va rpc ''previewWithdraw'' amt ua)))"
proof -
  let ?C = "Construct ''Contract'' [JStr va, ERC4626_ABI, w]"
  have f: "amt = None \<or> amt = Some (Fin 0) \<Longrightarrow> falsy_num amt" "ua = None \<Longrightarrow> falsy_str ua"
    by (auto simp: falsy_num_def falsy_str_def)
  have thrown: "vaultInteraction rt sdk w va rpc a amt ua = (fst (vaultInteraction_catch e'), [?C])"
    if "sdk ?C = Inl e'" for a e'
    using that by (simp add: vaultInteraction_constructor_throws [where sdk = sdk and e = e'])
  have built: "sdk ?C = Inr c \<longrightarrow>
      (amt = None \<or> amt = Some (Fin 0) \<or> ua = None \<longrightarrow>
         vaultInteraction rt sdk w va rpc ''deposit'' amt ua =
           (Inr ''Error: Amount and user address required for deposits'', [?C]) \<and>
         vaultInteraction rt sdk w va rpc ''withdraw'' amt ua =
           (Inr ''Error: Amount and user address required for withdrawals'', [?C])) \<and>
      (ua = None \<longrightarrow>
         vaultInteraction rt sdk w va rpc ''balance'' amt ua =
           (Inr ''Error: User address required for balance queries'', [?C])) \<and>
      (amt = None \<or> amt = Some (Fin 0) \<longrightarrow>
         vaultInteraction rt sdk w va rpc ''previewDeposit'' amt ua =
           (Inr ''Error: Amount required for deposit preview'', [?C]) \<and>
         vaultInteraction rt sdk w va rpc ''previewWithdraw'' amt ua =
           (Inr ''Error: Amount required for withdrawal preview'', [?C]))" for c
    using f
    by (auto simp: vaultInteraction_def vaultInteraction_try_def io_bind_perform vault_switch_def
        io_throw_def try_catch_Inl vaultInteraction_catch_def new_Error_def io_ret_def
        str_includes_def sublist_code)
  have none:
    "(amt = None \<or> amt = Some (Fin 0) \<or> ua = None \<longrightarrow>
      \<not> list_ex is_method_call (snd (vaultInteraction rt sdk w va rpc ''deposit'' amt ua)) \<and>
      \<not> list_ex is_method_call (snd (vaultInteraction rt sdk w va rpc ''withdraw'' amt ua))) \<and>
   (ua = None \<longrightarrow>
      \<not> list_ex is_method_call (snd (vaultInteraction rt sdk w va rpc ''balance'' amt ua))) \<and>
   (amt = None \<or> amt = Some (Fin 0) \<longrightarrow>
      \<not> list_ex is_method_call (snd (vaultInteraction rt sdk w va rpc ''previewDeposit'' amt ua)) \<and>
      \<not> list_ex is_method_call (snd (vaultInteraction rt sdk w va rpc ''previewWithdraw'' amt ua)))"
  proof (cases "sdk ?C")
    case (Inl e')
    show ?thesis using Inl by (simp add: vaultInteraction_constructor_throws [where sdk = sdk and e = e'])
  next
    case (Inr c')
    show ?thesis using built [of c'] Inr by auto
  qed
  from built [of c] thrown [of e act] none show ?thesis by blast
qed

theorem vault_preconditions_before_calls_witness:
  "ex_sdk (Construct ''Contract'' [JStr VAULT_ADDRESS, ERC4626_ABI, JRef 0]) = Inr (JRef 1) \<and>
   vaultInteraction ex_rt ex_sdk (JRef 0) VAULT_ADDRESS ''https://rpc'' ''deposit'' (Some (Fin 0)) (Some BRETT_ADDRESS) =
     (Inr ''Error: Amount and user address required for deposits'',
      [Construct ''Contract'' [JStr VAULT_ADDRESS, ERC4626_ABI, JRef 0]]) \<and>
   vaultInteraction ex_rt ex_sdk (JRef 0) VAULT_ADDRESS ''https://rpc'' ''withdraw'' (Some (Fin 0)) (Some BRETT_ADDRESS) =
     (Inr ''Error: Amount and user address required for withdrawals'',
      [Construct ''Contract'' [JStr VAULT_ADDRESS, ERC4626_ABI, JRef 0]]) \<and>
   vaultInteraction ex_rt ex_sdk (JRef 0) VAULT_ADDRESS ''https://rpc'' ''balance'' (Some (Fin 5)) None =
     (Inr ''Error: User address required for balance queries'',
      [Construct ''Contract'' [JStr VAULT_ADDRESS, ERC4626_ABI, JRef 0]]) \<and>
   vaultInteraction ex_rt ex_sdk (JRef 0) VAULT_ADDRESS ''https://rpc'' ''previewDeposit'' None None =
     (Inr ''Error: Amount required for deposit preview'',
      [Construct ''Contract'' [JStr VAULT_ADDRESS, ERC4626_ABI, JRef 0]]) \<and>
   ex_sdk_no_contract (Construct ''Contract'' [JStr VAULT_ADDRESS, ERC4626_ABI, JRef 0]) =
     Inl (ErrorObj ''TypeError'' ''invalid address'') \<and>
   vaultInteraction ex_rt ex_sdk_no_contract (JRef 0) VAULT_ADDRESS ''https://rpc'' ''previewWithdraw'' None None =
     (Inr ''Error: invalid address'', [Construct ''Contract'' [JStr VAULT_ADDRESS, ERC4626_ABI, JRef 0]]) \<and>
   \<not> list_ex is_method_call
       (snd (vaultInteraction ex_rt ex_sdk_no_contract (JRef 0) VAULT_ADDRESS ''https://rpc'' ''previewWithdraw'' None None))"
proof -
  have h: "ex_sdk (Construct ''Contract'' [JStr VAULT_ADDRESS, ERC4626_ABI, JRef 0]) = Inr (JRef 1)"
    by (simp add: ex_sdk_def)
  have k: "ex_sdk_no_contract (Construct ''Contract'' [JStr VAULT_ADDRESS, ERC4626_ABI, JRef 0]) =
     Inl (ErrorObj ''TypeError'' ''invalid address'')"
    by (simp add: ex_sdk_no_contract_def)
  have c: "fst (vaultInteraction_catch (ErrorObj ''TypeError'' ''invalid address'')) = Inr ''Error: invalid address''"
    by (simp add: vaultInteraction_catch_def io_ret_def str_includes_def sublist_code)
  show ?thesis
    using h k c
      vault_preconditions_before_calls [where sdk = ex_sdk and va = VAULT_ADDRESS and w = "JRef 0"
        and c = "JRef 1" and amt = "Some (Fin 0)" and ua = "Some BRETT_ADDRESS" and rt = ex_rt
        and rpc = "''https://rpc''"]
      vault_preconditions_before_calls [where sdk = ex_sdk and va = VAULT_ADDRESS and w = "JRef 0"
        and c = "JRef 1" and amt = "Some (Fin 5)" and ua = None and rt = ex_rt
        and rpc = "''https://rpc''"]
      vault_preconditions_before_calls [where sdk = ex_sdk and va = VAULT_ADDRESS and w = "JRef 0"
        and c = "JRef 1" and amt = None and ua = None and rt = ex_rt
        and rpc = "''https://rpc''"]
      vault_preconditions_before_calls [where sdk = ex_sdk_no_contract and va = VAULT_ADDRESS and w = "JRef 0"
        and e = "ErrorObj ''TypeError'' ''invalid address''" and amt = None and ua = None and rt = ex_rt
        and rpc = "''https://rpc''" and act = "''previewWithdraw''"]
    by simp
qed

section \<open>The contract invocation of gorilliMemeTrade\<close>

lemma gorilliMemeTrade_try_calls:
  assumes "c \<in> set (snd (gorilliMemeTrade_try rt sdk w a tok dl m))"
  shows "c = Construct ''Decimal'' [JStr (amountIn a)] \<or>
         (\<exists>dec. c = Invoke w ''invokeContract'' [invocation_options tok (amountIn a) m dl dec]) \<or>
         (\<exists>inv. c = Invoke inv ''wait'' []) \<or>
         (\<exists>inv. c = Invoke inv ''getTransactionHash'' []) \<or>
         (\<exists>u. c = ToString u)"
  using assms unfolding gorilliMemeTrade_try_def
  by (elim io_bind_callsE) (auto simp: perform_def io_ret_def dest: template_str_calls)

lemma gorilliMemeTrade_calls:
  assumes "c \<in> set (snd (gorilliMemeTrade rt sdk w a))"
  shows "\<exists>m. minAmountOut_of rt (amountIn a) (slippagePercentage a) = Inr m \<and>
           c \<in> set (snd (gorilliMemeTrade_try rt sdk w a (tokenOut_of (action a)) (deadline_of rt) m))"
proof (cases "minAmountOut_of rt (amountIn a) (slippagePercentage a)")
  case (Inl e)
  then show ?thesis using assms by (simp add: gorilliMemeTrade_def io_throw_def)
next
  case (Inr m)
  obtain r t where rt: "gorilliMemeTrade_try rt sdk w a (tokenOut_of (action a)) (deadline_of rt) m = (r, t)"
    by (cases "gorilliMemeTrade_try rt sdk w a (tokenOut_of (action a)) (deadline_of rt) m")
  then show ?thesis using assms Inr
    by (cases r) (simp_all add: gorilliMemeTrade_def try_catch_Inl try_catch_Inr io_ret_def)
qed

text \<open>
  C10. For every input, every \<open>invokeContract\<close> call that \<open>gorilliMemeTrade\<close> makes is
  on the wallet, targets the fixed vault address
  \<open>0xc6827ce6d60a13a20a86dcac8c9e6d0f84497345\<close> with the method \<open>executeTrade\<close>, and
  passes as first contract argument the token to receive, which is the BRETT address
  if and only if the action is \<open>BUY\<close> and the USDC address if and only if the action is
  \<open>SELL\<close>.
\<close>

theorem meme_trade_invocation_target:
  assumes "Invoke target ''invokeContract'' as \<in> set (snd (gorilliMemeTrade rt sdk wallet a))"
  shows "target = wallet \<and>
         (\<exists>opts rest. as = [opts] \<and>
            get_prop opts ''contractAddress'' = JStr VAULT_ADDRESS \<and>
            get_prop opts ''method'' = JStr ''executeTrade'' \<and>
            get_prop opts ''args'' = JArr (JStr (tokenOut_of (action a)) # rest)) \<and>
         (tokenOut_of (action a) = BRETT_ADDRESS \<longleftrightarrow> action a = BUY) \<and>
         (tokenOut_of (action a) = USDC_ADDRESS \<longleftrightarrow> action a = SELL)"
proof -
  from gorilliMemeTrade_calls [OF assms] obtain m where
    "Invoke target ''invokeContract'' as
       \<in> set (snd (gorilliMemeTrade_try rt sdk wallet a (tokenOut_of (action a)) (deadline_of rt) m))"
    by blast
  from gorilliMemeTrade_try_calls [OF this] obtain dec where
    "target = wallet" "as = [invocation_options (tokenOut_of (action a)) (amountIn a) m (deadline_of rt) dec]"
    by auto
  moreover have "tokenOut_of (action a) = BRETT_ADDRESS \<longleftrightarrow> action a = BUY"
    by (simp add: tokenOut_of_def BRETT_ADDRESS_def USDC_ADDRESS_def)
  moreover have "tokenOut_of (action a) = USDC_ADDRESS \<longleftrightarrow> action a = SELL"
    by (cases "action a") (simp_all add: tokenOut_of_def BRETT_ADDRESS_def USDC_ADDRESS_def)
  ultimately show ?thesis
    by (simp add: invocation_options_def get_prop_def)
qed

theorem meme_trade_invocation_target_witness:
  "Invoke (JRef 0) ''invokeContract''
        [invocation_options BRETT_ADDRESS ''1000'' 990 (deadline_of ex_rt) (JRef 1)]
      \<in> set (snd (gorilliMemeTrade ex_rt ex_sdk (JRef 0) ex_meme_args)) \<and>
   get_prop (invocation_options BRETT_ADDRESS ''1000'' 990 (deadline_of ex_rt) (JRef 1)) ''contractAddress''
     = JStr VAULT_ADDRESS \<and>
   tokenOut_of (action ex_meme_args) = BRETT_ADDRESS \<and> action ex_meme_args = BUY"
proof -
  have h: "Invoke (JRef 0) ''invokeContract''
        [invocation_options BRETT_ADDRESS ''1000'' 990 (deadline_of ex_rt) (JRef 1)]
      \<in> set (snd (gorilliMemeTrade ex_rt ex_sdk (JRef 0) ex_meme_args))"
    by (simp add: ex_meme_trace)
  show ?thesis
    using h meme_trade_invocation_target [OF h]
    by (auto simp: ex_meme_args_def)
qed

section \<open>The registry\<close>

text \<open>
  Creating objects appends them to the store: the references returned are the next
  free positions, in order, and nothing else changes.
\<close>

lemma new_obj_simps:
  "fst (new_obj ob s) = length (objects s)"
  "objects (snd (new_obj ob s)) = objects s @ [ob]"
  "console_out (snd (new_obj ob s)) = console_out s"
  by (simp_all add: new_obj_def)

lemma new_objs_Cons:
  "new_objs (ob # obs) s =
     (fst (new_obj ob s) # fst (new_objs obs (snd (new_obj ob s))),
      snd (new_objs obs (snd (new_obj ob s))))"
  by (simp split: prod.splits)

lemma new_objs_objects:
  "objects (snd (new_objs obs s)) = objects s @ obs"
  by (induction obs arbitrary: s) (simp_all add: new_objs_Cons new_obj_simps del: new_objs.simps(2))

lemma new_objs_refs:
  "fst (new_objs obs s) = [length (objects s) ..< length (objects s) + length obs]"
proof (induction obs arbitrary: s)
  case Nil
  show ?case by simp
next
  case (Cons ob obs)
  have "fst (new_objs (ob # obs) s) =
          length (objects s) # fst (new_objs obs (snd (new_obj ob s)))"
    by (simp add: new_objs_Cons new_obj_simps del: new_objs.simps(2))
  also have "\<dots> = length (objects s) # [Suc (length (objects s)) ..< Suc (length (objects s)) + length obs]"
    by (simp add: Cons.IH new_obj_simps)
  also have "\<dots> = [length (objects s) ..< length (objects s) + length (ob # obs)]"
    by (simp add: upt_conv_Cons del: upt_Suc)
  finally show ?case .
qed

lemma new_objs_console: "console_out (snd (new_objs obs s)) = console_out s"
  by (induction obs arbitrary: s) (simp_all add: new_objs_Cons new_obj_simps del: new_objs.simps(2))

text \<open>What a call of \<open>getAllCdpActions\<close> returns, and the state it leaves.\<close>

lemma getAllCdpActions_result:
  "fst (getAllCdpActions imp s) = length (objects s) + 13"
  "objects (snd (getAllCdpActions imp s)) =
     objects s @
     map ActionObj
       [GetWalletDetailsAction imp, DeployNftAction imp, DeployTokenAction imp,
        GetBalanceAction imp, MintNftAction imp, RegisterBasenameAction imp,
        RequestFaucetFundsAction imp, TradeAction imp, TransferAction imp, WrapEthAction imp,
        CreateERC4626VaultAction, GorilliTradeAction, GorilliMemeTradeAction] @
     [ArrayObj [length (objects s) ..< length (objects s) + 13]]"
  "console_out (snd (getAllCdpActions imp s)) =
     console_out s @ [(''RETRIEVED CDP_ACTIONS'', length (objects s) + 13)]"
proof -
  let ?obs = "map ActionObj
       [GetWalletDetailsAction imp, DeployNftAction imp, DeployTokenAction imp,
        GetBalanceAction imp, MintNftAction imp, RegisterBasenameAction imp,
        RequestFaucetFundsAction imp, TradeAction imp, TransferAction imp, WrapEthAction imp,
        CreateERC4626VaultAction, GorilliTradeAction, GorilliMemeTradeAction]"
  obtain rs s1 where n: "new_objs ?obs s = (rs, s1)" by (cases "new_objs ?obs s")
  have len: "length ?obs = 13" by simp
  have "fst (new_objs ?obs s) = [length (objects s) ..< length (objects s) + length ?obs]"
    by (rule new_objs_refs)
  then have rs: "rs = [length (objects s) ..< length (objects s) + 13]"
    by (simp only: n fst_conv len)
  have s1: "objects s1 = objects s @ ?obs" "console_out s1 = console_out s"
    using new_objs_objects [of ?obs s] new_objs_console [of ?obs s] by (simp_all only: n snd_conv)
  have l1: "length (objects s1) = length (objects s) + 13"
    by (simp only: s1 length_append len)
  have g: "getAllCdpActions imp s =
      (length (objects s1),
       (snd (new_obj (ArrayObj rs) s1))\<lparr>console_out := console_out s1 @ [(''RETRIEVED CDP_ACTIONS'', length (objects s1))]\<rparr>)"
    unfolding getAllCdpActions_def n by (simp add: new_obj_def)
  show "fst (getAllCdpActions imp s) = length (objects s) + 13"
    by (simp only: g fst_conv l1)
  show "objects (snd (getAllCdpActions imp s)) = objects s @ ?obs @ [ArrayObj [length (objects s) ..< length (objects s) + 13]]"
    by (simp add: g new_obj_simps s1(1) rs del: upt_Suc)
  show "console_out (snd (getAllCdpActions imp s)) =
     console_out s @ [(''RETRIEVED CDP_ACTIONS'', length (objects s) + 13)]"
    by (simp add: g s1(2) l1)
qed

text \<open>
  A call leaves every object that existed as it was; the array it returns and the
  thirteen instances in it did not exist before; and the instances have the fields
  that the thirteen classes give them, in the order of the array literal.
\<close>

lemma lookup_append: "r < length (objects s) \<Longrightarrow> objects s' = objects s @ xs \<Longrightarrow> lookup s' r = lookup s r"
  by (simp add: lookup_def nth_append)

lemma getAllCdpActions_frame:
  "r < length (objects s) \<Longrightarrow> lookup (snd (getAllCdpActions imp s)) r = lookup s r"
  by (rule lookup_append) (simp_all add: getAllCdpActions_result(2))

lemma getAllCdpActions_length:
  "length (objects (snd (getAllCdpActions imp s))) = length (objects s) + 14"
  by (simp add: getAllCdpActions_result(2))

lemma getAllCdpActions_elements:
  "elements_of (snd (getAllCdpActions imp s)) (fst (getAllCdpActions imp s)) =
     [length (objects s) ..< length (objects s) + 13]"
  by (simp add: elements_of_def lookup_def getAllCdpActions_result(1,2) nth_append del: upt_Suc)

lemma lookup_new:
  assumes "objects s' = pre @ obs @ rest"
  shows "map (lookup s') [length pre ..< length pre + length obs] = map Some obs"
proof (rule nth_equalityI)
  show "length (map (lookup s') [length pre ..< length pre + length obs]) = length (map Some obs)"
    by simp
next
  fix i assume "i < length (map (lookup s') [length pre ..< length pre + length obs])"
  then have i: "i < length obs" by simp
  then have "lookup s' (length pre + i) = Some (obs ! i)"
    by (simp add: lookup_def assms nth_append)
  then show "map (lookup s') [length pre ..< length pre + length obs] ! i = map Some obs ! i"
    using i by simp
qed

lemma getAllCdpActions_values:
  "array_values (snd (getAllCdpActions imp s)) (fst (getAllCdpActions imp s)) =
     map (\<lambda>a. Some (ActionObj a))
       [GetWalletDetailsAction imp, DeployNftAction imp, DeployTokenAction imp,
        GetBalanceAction imp, MintNftAction imp, RegisterBasenameAction imp,
        RequestFaucetFundsAction imp, TradeAction imp, TransferAction imp, WrapEthAction imp,
        CreateERC4626VaultAction, GorilliTradeAction, GorilliMemeTradeAction]"
proof -
  let ?as = "[GetWalletDetailsAction imp, DeployNftAction imp, DeployTokenAction imp,
        GetBalanceAction imp, MintNftAction imp, RegisterBasenameAction imp,
        RequestFaucetFundsAction imp, TradeAction imp, TransferAction imp, WrapEthAction imp,
        CreateERC4626VaultAction, GorilliTradeAction, GorilliMemeTradeAction]"
  let ?n = "length (objects s)"
  let ?s' = "snd (getAllCdpActions imp s)"
  have len: "length (map ActionObj ?as) = 13" by simp
  have "map (lookup ?s') [?n ..< ?n + length (map ActionObj ?as)] = map Some (map ActionObj ?as)"
    by (rule lookup_new) (rule getAllCdpActions_result(2))
  then have "map (lookup ?s') [?n ..< ?n + 13] = map Some (map ActionObj ?as)"
    by (simp only: len)
  also have "map Some (map ActionObj ?as) = map (\<lambda>a. Some (ActionObj a)) ?as"
    by simp
  finally show ?thesis by (simp only: array_values_def getAllCdpActions_elements)
qed

lemma getAllCdpActions_elements_at:
  "elements_of (snd (getAllCdpActions imp s)) (length (objects s) + 13) =
     [length (objects s) ..< length (objects s) + 13]"
  using getAllCdpActions_elements [of imp s] by (simp only: getAllCdpActions_result(1))


lemma getAllCdpActions_fresh:
  assumes "r \<in> set (fst (getAllCdpActions imp s) #
                     elements_of (snd (getAllCdpActions imp s)) (fst (getAllCdpActions imp s)))"
  shows "lookup s r = None"
proof -
  from assms have "r = length (objects s) + 13 \<or> r \<in> set [length (objects s) ..< length (objects s) + 13]"
    by (simp only: getAllCdpActions_result(1) getAllCdpActions_elements_at set_ConsD list.set insert_iff)
  then have "\<not> r < length (objects s)" by (auto simp del: upt_Suc)
  then show ?thesis by (simp add: lookup_def)
qed


lemma elements_of_append:
  "r < length (objects s) \<Longrightarrow> objects s' = objects s @ xs \<Longrightarrow> elements_of s' r = elements_of s r"
proof -
  assume "r < length (objects s)" "objects s' = objects s @ xs"
  then have "lookup s' r = lookup s r" by (rule lookup_append)
  then show ?thesis by (simp only: elements_of_def)
qed


lemma CDP_ACTIONS_result:
  "fst (CDP_ACTIONS imp s) = length (objects s) + 14"
  "objects (snd (CDP_ACTIONS imp s)) =
     objects (snd (getAllCdpActions imp s)) @
     [ArrayObj (elements_of (snd (getAllCdpActions imp s)) (fst (getAllCdpActions imp s)) @
                elements_of (snd (getAllCdpActions imp s)) (WOW_ACTIONS imp))]"
  "console_out (snd (CDP_ACTIONS imp s)) = console_out (snd (getAllCdpActions imp s))"
proof -
  have c: "CDP_ACTIONS imp s =
      concat_arrays (fst (getAllCdpActions imp s)) (WOW_ACTIONS imp) (snd (getAllCdpActions imp s))"
    by (simp add: CDP_ACTIONS_def split: prod.splits)
  show "fst (CDP_ACTIONS imp s) = length (objects s) + 14"
    by (simp add: c concat_arrays_def new_obj_def getAllCdpActions_length)
  show "objects (snd (CDP_ACTIONS imp s)) =
     objects (snd (getAllCdpActions imp s)) @
     [ArrayObj (elements_of (snd (getAllCdpActions imp s)) (fst (getAllCdpActions imp s)) @
                elements_of (snd (getAllCdpActions imp s)) (WOW_ACTIONS imp))]"
    by (simp add: c concat_arrays_def new_obj_def)
  show "console_out (snd (CDP_ACTIONS imp s)) = console_out (snd (getAllCdpActions imp s))"
    by (simp add: c concat_arrays_def new_obj_def)
qed


lemma CDP_ACTIONS_frame_later:
  assumes "r < length (objects (snd (getAllCdpActions imp s)))"
  shows "lookup (snd (CDP_ACTIONS imp s)) r = lookup (snd (getAllCdpActions imp s)) r"
  using assms by (rule lookup_append) (rule CDP_ACTIONS_result(2))


lemma CDP_ACTIONS_frame:
  assumes "r < length (objects s)"
  shows "lookup (snd (CDP_ACTIONS imp s)) r = lookup s r"
proof -
  from assms have "r < length (objects (snd (getAllCdpActions imp s)))"
    by (simp add: getAllCdpActions_length)
  then have "lookup (snd (CDP_ACTIONS imp s)) r = lookup (snd (getAllCdpActions imp s)) r"
    by (rule CDP_ACTIONS_frame_later)
  also from assms have "\<dots> = lookup s r" by (rule getAllCdpActions_frame)
  finally show ?thesis .
qed


lemma CDP_ACTIONS_elements:
  assumes "WOW_ACTIONS imp < length (objects s)"
  shows "elements_of (snd (CDP_ACTIONS imp s)) (fst (CDP_ACTIONS imp s)) =
           elements_of (snd (getAllCdpActions imp s)) (fst (getAllCdpActions imp s)) @
           elements_of s (WOW_ACTIONS imp)"
proof -
  have "elements_of (snd (getAllCdpActions imp s)) (WOW_ACTIONS imp) = elements_of s (WOW_ACTIONS imp)"
    using assms by (rule elements_of_append) (simp add: getAllCdpActions_result(2))
  then show ?thesis
    by (simp add: elements_of_def [of "snd (CDP_ACTIONS imp s)"] lookup_def CDP_ACTIONS_result(1,2)
        getAllCdpActions_length nth_append)
qed


lemma CDP_ACTIONS_values:
  assumes "WOW_ACTIONS imp < length (objects s)"
    and "\<forall>r \<in> set (elements_of s (WOW_ACTIONS imp)). r < length (objects s)"
  shows "array_values (snd (CDP_ACTIONS imp s)) (fst (CDP_ACTIONS imp s)) =
           array_values (snd (getAllCdpActions imp s)) (fst (getAllCdpActions imp s)) @
           array_values s (WOW_ACTIONS imp)"
proof -
  let ?g = "snd (getAllCdpActions imp s)"
  let ?c = "snd (CDP_ACTIONS imp s)"
  have 1: "map (lookup ?c) (elements_of ?g (fst (getAllCdpActions imp s))) =
           map (lookup ?g) (elements_of ?g (fst (getAllCdpActions imp s)))"
  proof (rule map_cong [OF refl])
    fix r assume "r \<in> set (elements_of ?g (fst (getAllCdpActions imp s)))"
    then have "r < length (objects ?g)"
      by (simp add: getAllCdpActions_elements getAllCdpActions_length del: upt_Suc)
    then show "lookup ?c r = lookup ?g r" by (rule CDP_ACTIONS_frame_later)
  qed
  have 2: "map (lookup ?c) (elements_of s (WOW_ACTIONS imp)) = map (lookup s) (elements_of s (WOW_ACTIONS imp))"
  proof (rule map_cong [OF refl])
    fix r assume "r \<in> set (elements_of s (WOW_ACTIONS imp))"
    with assms(2) have "r < length (objects s)" by blast
    then show "lookup ?c r = lookup s r" by (rule CDP_ACTIONS_frame)
  qed
  show ?thesis
    by (simp only: array_values_def CDP_ACTIONS_elements [OF assms(1)] map_append 1 2)
qed


lemma later_call_frame:
  assumes "lookup (snd (CDP_ACTIONS imp s)) r \<noteq> None"
  shows "lookup (snd (getAllCdpActions imp' (snd (CDP_ACTIONS imp s)))) r = lookup (snd (CDP_ACTIONS imp s)) r"
proof -
  from assms have "r < length (objects (snd (CDP_ACTIONS imp s)))"
    by (simp add: lookup_def split: if_splits)
  then show ?thesis by (rule getAllCdpActions_frame)
qed

lemma later_call_values:
  assumes "WOW_ACTIONS imp < length (objects s)"
    and "\<forall>r \<in> set (elements_of s (WOW_ACTIONS imp)). r < length (objects s)"
  shows "array_values (snd (getAllCdpActions imp' (snd (CDP_ACTIONS imp s)))) (fst (CDP_ACTIONS imp s)) =
           array_values (snd (CDP_ACTIONS imp s)) (fst (CDP_ACTIONS imp s))"
proof -
  let ?c = "snd (CDP_ACTIONS imp s)"
  let ?l = "snd (getAllCdpActions imp' ?c)"
  have len: "length (objects ?c) = length (objects s) + 15"
    by (simp add: CDP_ACTIONS_result(2) getAllCdpActions_length)
  have "fst (CDP_ACTIONS imp s) < length (objects ?c)"
    by (simp add: len CDP_ACTIONS_result(1))
  then have e: "elements_of ?l (fst (CDP_ACTIONS imp s)) = elements_of ?c (fst (CDP_ACTIONS imp s))"
    by (rule elements_of_append) (rule getAllCdpActions_result(2))
  have "map (lookup ?l) (elements_of ?c (fst (CDP_ACTIONS imp s))) =
        map (lookup ?c) (elements_of ?c (fst (CDP_ACTIONS imp s)))"
  proof (rule map_cong [OF refl])
    fix r assume "r \<in> set (elements_of ?c (fst (CDP_ACTIONS imp s)))"
    then have "r \<in> set [length (objects s) ..< length (objects s) + 13] \<or>
               r \<in> set (elements_of s (WOW_ACTIONS imp))"
      by (simp only: CDP_ACTIONS_elements [OF assms(1)] getAllCdpActions_elements set_append Un_iff)
    with assms(2) have "r < length (objects ?c)"
      by (auto simp: len simp del: upt_Suc)
    then show "lookup ?l r = lookup ?c r" by (rule getAllCdpActions_frame)
  qed
  then show ?thesis by (simp only: array_values_def e)
qed

text \<open>
  The handlers. A handler performs calls and nothing else, so what it can do to an
  object is hand it to the SDK. Every reference that a call of a handler hands over
  comes from the wallet, from the arguments, from the compiled contract of the runtime
  or from an earlier answer of the SDK.
\<close>

lemma sdk_refs_answer: "sdk c = Inr x \<Longrightarrow> r \<notin> sdk_refs sdk \<Longrightarrow> r \<notin> refs_of x"
proof
  assume a: "sdk c = Inr x" "r \<notin> sdk_refs sdk" "r \<in> refs_of x"
  then have "r \<in> (case sdk c of Inr v \<Rightarrow> refs_of v | Inl e \<Rightarrow> {})" by simp
  then have "r \<in> sdk_refs sdk" unfolding sdk_refs_def by blast
  with a show False by simp
qed

lemma perform_answer: "fst (perform sdk c) = Inr x \<Longrightarrow> r \<notin> sdk_refs sdk \<Longrightarrow> r \<notin> refs_of x"
  by (simp add: perform_def sdk_refs_answer)

lemma perform_call: "c' \<in> set (snd (perform sdk c)) \<Longrightarrow> c' = c"
  by (simp add: perform_def)

lemma template_str_call: "c \<in> set (snd (template_str rt sdk v)) \<Longrightarrow> c = ToString v"
  by (auto simp: template_str_def io_ret_def io_bind_perform io_throw_def
      split: option.splits sum.splits)

lemma try_catch_callsE:
  assumes "c \<in> set (snd (try_catch m h))"
  obtains "c \<in> set (snd m)" | e where "fst m = Inl e" "c \<in> set (snd (h e))"
  using assms by (auto simp: try_catch_def split: prod.splits sum.splits)

lemma refs_of_get_prop: "r \<notin> refs_of v \<Longrightarrow> r \<notin> refs_of (get_prop v k)"
  by (cases v) (auto simp: get_prop_def split: option.splits dest!: map_of_SomeD)

lemma refs_of_constants [simp]:
  "refs_of ERC4626_ABI = {}" "refs_of EXECUTE_TRADE_ABI = {}"
  "refs_of (opt_num amt) = {}" "refs_of (opt_str ua) = {}"
  by (simp_all add: ERC4626_ABI_def EXECUTE_TRADE_ABI_def opt_num_def opt_str_def split: option.splits)

lemma gorilli_trade_refs:
  assumes "c \<in> set (snd (gorilli_trade rt sdk w a))"
    and "r \<notin> refs_of w" "r \<notin> refs_of (amount a)" "r \<notin> sdk_refs sdk"
  shows "r \<notin> call_refs c"
  using assms(1) unfolding gorilli_trade_def
proof (cases rule: try_catch_callsE)
  case 1
  then show ?thesis using assms(2-) unfolding gorilli_trade_try_def
    by (elim io_bind_callsE)
      (auto simp: io_ret_def dest!: perform_call template_str_call dest: perform_answer)
next
  case (2 e)
  then show ?thesis by (simp add: io_ret_def)
qed

lemma gorilliMemeTrade_refs:
  assumes "c \<in> set (snd (gorilliMemeTrade rt sdk w a))"
    and "r \<notin> refs_of w" "r \<notin> sdk_refs sdk"
  shows "r \<notin> call_refs c"
proof -
  from gorilliMemeTrade_calls [OF assms(1)] obtain m where
    "c \<in> set (snd (gorilliMemeTrade_try rt sdk w a (tokenOut_of (action a)) (deadline_of rt) m))"
    by blast
  then show ?thesis using assms(2-) unfolding gorilliMemeTrade_try_def
    by (elim io_bind_callsE)
      (auto simp: io_ret_def invocation_options_def dest!: perform_call template_str_call dest: perform_answer)
qed

lemma createERC4626Vault_refs:
  assumes "c \<in> set (snd (createERC4626Vault rt sdk a))"
    and "r \<notin> refs_of (ERC4626VaultABI rt)" "r \<notin> sdk_refs sdk"
  shows "r \<notin> call_refs c"
  using assms(1) unfolding createERC4626Vault_def
proof (cases rule: try_catch_callsE)
  case 1
  show ?thesis
  proof (cases "falsy_str (env_PRIVATE_KEY rt)")
    case True
    from 1 have "c \<in> set (snd (io_bind (perform sdk (Construct ''ethers.JsonRpcProvider'' [JStr ''https://sepolia.base.org'']))
        (\<lambda>provider. io_throw (new_Error ''PRIVATE_KEY environment variable is not set'') :: string io)))"
      by (simp only: createERC4626Vault_try_def True if_True)
    then show ?thesis
      by (elim io_bind_callsE) (auto simp: io_throw_def dest!: perform_call)
  next
    case False
    from 1 show ?thesis using assms(2-) refs_of_get_prop [of r "ERC4626VaultABI rt"]
      unfolding createERC4626Vault_try_def
      by (simp only: False if_False, elim io_bind_callsE)
        (auto simp: io_ret_def dest!: perform_call template_str_call dest: perform_answer)
  qed
next
  case (2 e)
  then show ?thesis by (simp add: createERC4626Vault_catch_def io_throw_def)
qed


lemma vault_branch_refs:
  assumes "c \<in> set (snd (vault_branch rt sdk vc act amt ua k))"
    and "r \<notin> refs_of vc" "r \<notin> sdk_refs sdk"
  shows "r \<notin> call_refs c"
  using assms
  by (cases k)
    (auto simp: io_ret_def io_throw_def to_string_text_def split: if_splits
       elim!: io_bind_callsE dest!: perform_call template_str_call dest: perform_answer)

lemma vaultInteraction_refs:
  assumes "c \<in> set (snd (vaultInteraction rt sdk w va rpc act amt ua))"
    and "r \<notin> refs_of w" "r \<notin> sdk_refs sdk"
  shows "r \<notin> call_refs c"
  using assms(1) unfolding vaultInteraction_def
proof (cases rule: try_catch_callsE)
  case 1
  then show ?thesis using assms(2-) unfolding vaultInteraction_try_def
    by (elim io_bind_callsE) (auto dest!: perform_call dest: perform_answer vault_branch_refs)
next
  case (2 e)
  then show ?thesis by (simp add: vaultInteraction_catch_no_calls)
qed

lemma registered_handlers_refs:
  assumes "a \<in> set [CreateERC4626VaultAction, GorilliTradeAction, GorilliMemeTradeAction]"
    and "c \<in> set (snd (call_func (func a) rt sdk wallet v))"
    and "r \<notin> refs_of wallet" "r \<notin> refs_of v" "r \<notin> sdk_refs sdk" "r \<notin> refs_of (ERC4626VaultABI rt)"
  shows "r \<notin> call_refs c"
proof -
  have "r \<notin> refs_of (amount (gorilli_trade_args_of v))"
    using assms(4) by (simp add: gorilli_trade_args_of_def refs_of_get_prop)
  then show ?thesis
    using assms
    by (auto simp: call_func_def CreateERC4626VaultAction_def GorilliTradeAction_def
        GorilliMemeTradeAction_def
        dest: createERC4626Vault_refs gorilli_trade_refs gorilliMemeTrade_refs)
qed

text \<open>The example state and the calls of two runs in it.\<close>

lemma ex_sdk_refs: "x \<in> sdk_refs ex_sdk \<Longrightarrow> x = 1 \<or> x = 2"
proof -
  assume "x \<in> sdk_refs ex_sdk"
  then obtain c where "x \<in> (case ex_sdk c of Inr v \<Rightarrow> refs_of v | Inl e \<Rightarrow> {})"
    unfolding sdk_refs_def by blast
  then show ?thesis by (cases c) (simp_all add: ex_sdk_def)
qed

lemma ex_trade_first_call:
  "Invoke (JRef 0) ''createTrade''
      [JObj [(''amount'', JNum (Fin 5)), (''fromAssetId'', JStr ''usdc''), (''toAssetId'', JStr ''eth'')]]
     \<in> set (snd (call_func (func GorilliTradeAction) ex_rt ex_sdk (JRef 0) ex_trade_input))"
  by (simp add: call_func_def GorilliTradeAction_def gorilli_trade_args_of_def ex_trade_input_def
      get_prop_def str_of_def
      gorilli_trade_def gorilli_trade_try_def io_bind_perform ex_sdk_def ex_rt_def
      template_str_def prim_text_def io_bind_Inr io_ret_def try_catch_Inr)

lemma ex_state_wow:
  "WOW_ACTIONS ex_imports = 5" "length (objects ex_state) = 6" "elements_of ex_state 5 = [3, 4]"
  "array_values ex_state 5 = [Some (ActionObj ex_action), Some (ActionObj ex_action)]"
  "lookup ex_state 5 = Some (ArrayObj [3, 4])"
  by (simp_all add: ex_imports_def ex_state_def elements_of_def lookup_def array_values_def)

text \<open>
  C8, as stated: \<open>getAllCdpActions\<close> returns the same sequence of thirteen action
  instances on every call, the list being built once. Every call builds the list
  anew: in the example state a first call returns the array 19 holding the instances
  6 to 18, and a second call returns another array, 33, holding the instances 20 to
  32, none of which is an instance of the first.
\<close>

theorem registry_calls_return_different_instances:
  "fst (getAllCdpActions ex_imports ex_state) = 19 \<and>
   elements_of (snd (getAllCdpActions ex_imports ex_state)) 19 = [6 ..< 19] \<and>
   fst (getAllCdpActions ex_imports (snd (getAllCdpActions ex_imports ex_state))) = 33 \<and>
   elements_of (snd (getAllCdpActions ex_imports (snd (getAllCdpActions ex_imports ex_state)))) 33 = [20 ..< 33] \<and>
   fst (getAllCdpActions ex_imports (snd (getAllCdpActions ex_imports ex_state))) \<noteq>
     fst (getAllCdpActions ex_imports ex_state) \<and>
   set (elements_of (snd (getAllCdpActions ex_imports (snd (getAllCdpActions ex_imports ex_state)))) 33) \<inter>
     set (elements_of (snd (getAllCdpActions ex_imports ex_state)) 19) = {}"
proof -
  have n: "length (objects ex_state) = 6" by (simp add: ex_state_def)
  have m: "length (objects (snd (getAllCdpActions ex_imports ex_state))) = 20"
    by (simp add: getAllCdpActions_length n)
  have 1: "fst (getAllCdpActions ex_imports ex_state) = 19"
    by (simp add: getAllCdpActions_result(1) n)
  have 2: "elements_of (snd (getAllCdpActions ex_imports ex_state)) 19 = [6 ..< 19]"
    using getAllCdpActions_elements_at [of ex_imports ex_state] by (simp add: n del: upt_Suc)
  have 3: "fst (getAllCdpActions ex_imports (snd (getAllCdpActions ex_imports ex_state))) = 33"
    by (simp add: getAllCdpActions_result(1) m)
  have 4: "elements_of (snd (getAllCdpActions ex_imports (snd (getAllCdpActions ex_imports ex_state)))) 33 = [20 ..< 33]"
    using getAllCdpActions_elements_at [of ex_imports "snd (getAllCdpActions ex_imports ex_state)"]
    by (simp add: m del: upt_Suc)
  have 5: "set [20 ..< 33] \<inter> set [6 ..< 19] = ({} :: nat set)" by auto
  show ?thesis by (simp only: 1 2 3 4 5) simp
qed

text \<open>
  C8, amended. On every call \<open>getAllCdpActions\<close> returns a new array of thirteen new
  action instances, which have the same fields in the same order whatever the state
  of the call: those of the ten imported classes followed by those of the three
  Gorilli actions, each with its name, description, schema and handler. A call
  changes no object that existed before it. \<open>CDP_ACTIONS\<close>, built once when the
  module loads, holds the instances of one such call followed by the elements of
  \<open>WOW_ACTIONS\<close>; building it changes no object that existed, and a later call of
  \<open>getAllCdpActions\<close> changes neither it nor any other object. No handler modifies
  the registry: the handlers of the three Gorilli actions and \<open>vaultInteraction\<close>
  only perform calls, and no call hands over a reference that neither the wallet, the
  arguments, the compiled contract nor the SDK held, so that a registry that none of
  these refers to is out of their reach.
\<close>

theorem registry_new_instances_fixed_values:
  "array_values (snd (getAllCdpActions imp s)) (fst (getAllCdpActions imp s)) =
     map (\<lambda>a. Some (ActionObj a))
       [GetWalletDetailsAction imp, DeployNftAction imp, DeployTokenAction imp,
        GetBalanceAction imp, MintNftAction imp, RegisterBasenameAction imp,
        RequestFaucetFundsAction imp, TradeAction imp, TransferAction imp, WrapEthAction imp,
        CreateERC4626VaultAction, GorilliTradeAction, GorilliMemeTradeAction] \<and>
   array_values (snd (getAllCdpActions imp t)) (fst (getAllCdpActions imp t)) =
     array_values (snd (getAllCdpActions imp s)) (fst (getAllCdpActions imp s)) \<and>
   (\<forall>r \<in> set (fst (getAllCdpActions imp s) #
               elements_of (snd (getAllCdpActions imp s)) (fst (getAllCdpActions imp s))).
      lookup s r = None) \<and>
   (\<forall>r < length (objects s).
      lookup (snd (getAllCdpActions imp s)) r = lookup s r \<and>
      lookup (snd (CDP_ACTIONS imp s)) r = lookup s r) \<and>
   (WOW_ACTIONS imp < length (objects s) \<and>
    (\<forall>r \<in> set (elements_of s (WOW_ACTIONS imp)). r < length (objects s)) \<longrightarrow>
      array_values (snd (CDP_ACTIONS imp s)) (fst (CDP_ACTIONS imp s)) =
        array_values (snd (getAllCdpActions imp s)) (fst (getAllCdpActions imp s)) @
        array_values s (WOW_ACTIONS imp) \<and>
      array_values (snd (getAllCdpActions imp (snd (CDP_ACTIONS imp s)))) (fst (CDP_ACTIONS imp s)) =
        array_values (snd (CDP_ACTIONS imp s)) (fst (CDP_ACTIONS imp s))) \<and>
   (\<forall>r. lookup (snd (CDP_ACTIONS imp s)) r \<noteq> None \<longrightarrow>
      lookup (snd (getAllCdpActions imp (snd (CDP_ACTIONS imp s)))) r =
        lookup (snd (CDP_ACTIONS imp s)) r) \<and>
   (a \<in> set [CreateERC4626VaultAction, GorilliTradeAction, GorilliMemeTradeAction] \<and>
    c \<in> set (snd (call_func (func a) rt sdk wallet v)) \<and>
    x \<notin> refs_of wallet \<and> x \<notin> refs_of v \<and> x \<notin> sdk_refs sdk \<and>
    x \<notin> refs_of (ERC4626VaultABI rt) \<longrightarrow>
      x \<notin> call_refs c) \<and>
   (d \<in> set (snd (vaultInteraction rt sdk wallet va rpc act amt ua)) \<and>
    x \<notin> refs_of wallet \<and> x \<notin> sdk_refs sdk \<longrightarrow>
      x \<notin> call_refs d)"
proof -
  have 1: "array_values (snd (getAllCdpActions imp s')) (fst (getAllCdpActions imp s')) =
     map (\<lambda>a. Some (ActionObj a))
       [GetWalletDetailsAction imp, DeployNftAction imp, DeployTokenAction imp,
        GetBalanceAction imp, MintNftAction imp, RegisterBasenameAction imp,
        RequestFaucetFundsAction imp, TradeAction imp, TransferAction imp, WrapEthAction imp,
        CreateERC4626VaultAction, GorilliTradeAction, GorilliMemeTradeAction]" for s'
    by (rule getAllCdpActions_values)
  have 2: "array_values (snd (getAllCdpActions imp t)) (fst (getAllCdpActions imp t)) =
     array_values (snd (getAllCdpActions imp s)) (fst (getAllCdpActions imp s))"
    by (simp only: 1)
  have 3: "\<forall>r \<in> set (fst (getAllCdpActions imp s) #
               elements_of (snd (getAllCdpActions imp s)) (fst (getAllCdpActions imp s))).
      lookup s r = None"
    using getAllCdpActions_fresh by blast
  have 4: "\<forall>r < length (objects s).
      lookup (snd (getAllCdpActions imp s)) r = lookup s r \<and>
      lookup (snd (CDP_ACTIONS imp s)) r = lookup s r"
    using getAllCdpActions_frame CDP_ACTIONS_frame by blast
  have 5: "WOW_ACTIONS imp < length (objects s) \<and>
    (\<forall>r \<in> set (elements_of s (WOW_ACTIONS imp)). r < length (objects s)) \<longrightarrow>
      array_values (snd (CDP_ACTIONS imp s)) (fst (CDP_ACTIONS imp s)) =
        array_values (snd (getAllCdpActions imp s)) (fst (getAllCdpActions imp s)) @
        array_values s (WOW_ACTIONS imp) \<and>
      array_values (snd (getAllCdpActions imp (snd (CDP_ACTIONS imp s)))) (fst (CDP_ACTIONS imp s)) =
        array_values (snd (CDP_ACTIONS imp s)) (fst (CDP_ACTIONS imp s))"
    using CDP_ACTIONS_values [of imp s] later_call_values [of imp s imp] by blast
  have 6: "\<forall>r. lookup (snd (CDP_ACTIONS imp s)) r \<noteq> None \<longrightarrow>
      lookup (snd (getAllCdpActions imp (snd (CDP_ACTIONS imp s)))) r =
        lookup (snd (CDP_ACTIONS imp s)) r"
    using later_call_frame by blast
  have 7: "a \<in> set [CreateERC4626VaultAction, GorilliTradeAction, GorilliMemeTradeAction] \<and>
    c \<in> set (snd (call_func (func a) rt sdk wallet v)) \<and>
    x \<notin> refs_of wallet \<and> x \<notin> refs_of v \<and> x \<notin> sdk_refs sdk \<and>
    x \<notin> refs_of (ERC4626VaultABI rt) \<longrightarrow>
      x \<notin> call_refs c"
    using registered_handlers_refs [of a c rt sdk wallet v x] by blast
  have 8: "d \<in> set (snd (vaultInteraction rt sdk wallet va rpc act amt ua)) \<and>
    x \<notin> refs_of wallet \<and> x \<notin> sdk_refs sdk \<longrightarrow>
      x \<notin> call_refs d"
    using vaultInteraction_refs [of d rt sdk wallet va rpc act amt ua x] by blast
  from 1 [of s] 2 3 4 5 6 7 8 show ?thesis by blast
qed

theorem registry_new_instances_fixed_values_witness:
  "length (array_values (snd (getAllCdpActions ex_imports ex_state)) (fst (getAllCdpActions ex_imports ex_state))) = 13 \<and>
   array_values (snd (getAllCdpActions ex_imports (snd (getAllCdpActions ex_imports ex_state))))
       (fst (getAllCdpActions ex_imports (snd (getAllCdpActions ex_imports ex_state)))) =
     array_values (snd (getAllCdpActions ex_imports ex_state)) (fst (getAllCdpActions ex_imports ex_state)) \<and>
   lookup ex_state (fst (getAllCdpActions ex_imports ex_state)) = None \<and>
   lookup (snd (getAllCdpActions ex_imports ex_state)) 5 = Some (ArrayObj [3, 4]) \<and>
   lookup (snd (CDP_ACTIONS ex_imports ex_state)) 5 = Some (ArrayObj [3, 4]) \<and>
   WOW_ACTIONS ex_imports < length (objects ex_state) \<and>
   list_all (\<lambda>r. r < length (objects ex_state)) (elements_of ex_state (WOW_ACTIONS ex_imports)) \<and>
   array_values (snd (CDP_ACTIONS ex_imports ex_state)) (fst (CDP_ACTIONS ex_imports ex_state)) =
     array_values (snd (getAllCdpActions ex_imports ex_state)) (fst (getAllCdpActions ex_imports ex_state)) @
     [Some (ActionObj ex_action), Some (ActionObj ex_action)] \<and>
   array_values (snd (getAllCdpActions ex_imports (snd (CDP_ACTIONS ex_imports ex_state))))
       (fst (CDP_ACTIONS ex_imports ex_state)) =
     array_values (snd (CDP_ACTIONS ex_imports ex_state)) (fst (CDP_ACTIONS ex_imports ex_state)) \<and>
   GorilliTradeAction \<in> set [CreateERC4626VaultAction, GorilliTradeAction, GorilliMemeTradeAction] \<and>
   Invoke (JRef 0) ''createTrade''
      [JObj [(''amount'', JNum (Fin 5)), (''fromAssetId'', JStr ''usdc''), (''toAssetId'', JStr ''eth'')]]
     \<in> set (snd (call_func (func GorilliTradeAction) ex_rt ex_sdk (JRef 0) ex_trade_input)) \<and>
   20 \<notin> refs_of (JRef 0) \<and> 20 \<notin> refs_of ex_trade_input \<and> 20 \<notin> sdk_refs ex_sdk \<and>
   20 \<notin> refs_of (ERC4626VaultABI ex_rt) \<and>
   fst (CDP_ACTIONS ex_imports ex_state) = 20 \<and>
   20 \<notin> call_refs (Invoke (JRef 0) ''createTrade''
      [JObj [(''amount'', JNum (Fin 5)), (''fromAssetId'', JStr ''usdc''), (''toAssetId'', JStr ''eth'')]]) \<and>
   Construct ''Contract'' [JStr VAULT_ADDRESS, ERC4626_ABI, JRef 0]
     \<in> set (snd (vaultInteraction ex_rt ex_sdk (JRef 0) VAULT_ADDRESS ''https://rpc'' ''totalAssets'' None None)) \<and>
   20 \<notin> call_refs (Construct ''Contract'' [JStr VAULT_ADDRESS, ERC4626_ABI, JRef 0])"
proof -
  let ?c = "Invoke (JRef 0) ''createTrade''
      [JObj [(''amount'', JNum (Fin 5)), (''fromAssetId'', JStr ''usdc''), (''toAssetId'', JStr ''eth'')]]"
  let ?d = "Construct ''Contract'' [JStr VAULT_ADDRESS, ERC4626_ABI, JRef 0]"
  note r = registry_new_instances_fixed_values [where imp = ex_imports and s = ex_state
      and t = "snd (getAllCdpActions ex_imports ex_state)" and a = GorilliTradeAction and c = ?c
      and rt = ex_rt and sdk = ex_sdk and wallet = "JRef 0" and v = ex_trade_input and x = 20
      and d = ?d and va = VAULT_ADDRESS and rpc = "''https://rpc''" and act = "''totalAssets''"
      and amt = None and ua = None]
  have h1: "WOW_ACTIONS ex_imports < length (objects ex_state)"
    by (simp add: ex_state_wow)
  have h2: "\<forall>r \<in> set (elements_of ex_state (WOW_ACTIONS ex_imports)). r < length (objects ex_state)"
    by (simp add: ex_state_wow)
  have h2': "list_all (\<lambda>r. r < length (objects ex_state)) (elements_of ex_state (WOW_ACTIONS ex_imports))"
    by (simp add: ex_state_wow)
  have h3: "GorilliTradeAction \<in> set [CreateERC4626VaultAction, GorilliTradeAction, GorilliMemeTradeAction]"
    by simp
  have h4: "?c \<in> set (snd (call_func (func GorilliTradeAction) ex_rt ex_sdk (JRef 0) ex_trade_input))"
    by (rule ex_trade_first_call)
  have h5: "20 \<notin> refs_of (JRef 0)" "20 \<notin> refs_of ex_trade_input" "20 \<notin> refs_of (ERC4626VaultABI ex_rt)"
    by (simp_all add: ex_trade_input_def ex_rt_def)
  have h6: "20 \<notin> sdk_refs ex_sdk" using ex_sdk_refs [of 20] by auto
  have h7: "?d \<in> set (snd (vaultInteraction ex_rt ex_sdk (JRef 0) VAULT_ADDRESS ''https://rpc'' ''totalAssets'' None None))"
    by (simp add: ex_vault_totalAssets)
  have h8: "fst (CDP_ACTIONS ex_imports ex_state) = 20"
    by (simp add: CDP_ACTIONS_result(1) ex_state_wow)
  have h9: "fst (getAllCdpActions ex_imports ex_state) \<in>
      set (fst (getAllCdpActions ex_imports ex_state) #
           elements_of (snd (getAllCdpActions ex_imports ex_state)) (fst (getAllCdpActions ex_imports ex_state)))"
    by simp
  from r have "array_values (snd (getAllCdpActions ex_imports ex_state)) (fst (getAllCdpActions ex_imports ex_state)) =
     map (\<lambda>a. Some (ActionObj a))
       [GetWalletDetailsAction ex_imports, DeployNftAction ex_imports, DeployTokenAction ex_imports,
        GetBalanceAction ex_imports, MintNftAction ex_imports, RegisterBasenameAction ex_imports,
        RequestFaucetFundsAction ex_imports, TradeAction ex_imports, TransferAction ex_imports,
        WrapEthAction ex_imports,
        CreateERC4626VaultAction, GorilliTradeAction, GorilliMemeTradeAction]" by blast
  then have c1: "length (array_values (snd (getAllCdpActions ex_imports ex_state)) (fst (getAllCdpActions ex_imports ex_state))) = 13"
    by simp
  from r have c2: "array_values (snd (getAllCdpActions ex_imports (snd (getAllCdpActions ex_imports ex_state))))
       (fst (getAllCdpActions ex_imports (snd (getAllCdpActions ex_imports ex_state)))) =
     array_values (snd (getAllCdpActions ex_imports ex_state)) (fst (getAllCdpActions ex_imports ex_state))"
    by blast
  from r h9 have c3: "lookup ex_state (fst (getAllCdpActions ex_imports ex_state)) = None"
    by blast
  from r have "\<forall>r < length (objects ex_state).
      lookup (snd (getAllCdpActions ex_imports ex_state)) r = lookup ex_state r \<and>
      lookup (snd (CDP_ACTIONS ex_imports ex_state)) r = lookup ex_state r" by blast
  then have c4: "lookup (snd (getAllCdpActions ex_imports ex_state)) 5 = Some (ArrayObj [3, 4])"
       "lookup (snd (CDP_ACTIONS ex_imports ex_state)) 5 = Some (ArrayObj [3, 4])"
    by (simp_all add: ex_state_wow)
  from r h1 h2 have c5: "array_values (snd (CDP_ACTIONS ex_imports ex_state)) (fst (CDP_ACTIONS ex_imports ex_state)) =
        array_values (snd (getAllCdpActions ex_imports ex_state)) (fst (getAllCdpActions ex_imports ex_state)) @
        array_values ex_state (WOW_ACTIONS ex_imports)"
      "array_values (snd (getAllCdpActions ex_imports (snd (CDP_ACTIONS ex_imports ex_state))))
          (fst (CDP_ACTIONS ex_imports ex_state)) =
        array_values (snd (CDP_ACTIONS ex_imports ex_state)) (fst (CDP_ACTIONS ex_imports ex_state))"
    by blast+
  have c5': "array_values (snd (CDP_ACTIONS ex_imports ex_state)) (fst (CDP_ACTIONS ex_imports ex_state)) =
        array_values (snd (getAllCdpActions ex_imports ex_state)) (fst (getAllCdpActions ex_imports ex_state)) @
        [Some (ActionObj ex_action), Some (ActionObj ex_action)]"
    using c5(1) by (simp only: ex_state_wow)
  from r h3 h4 h5 h6 have c6: "20 \<notin> call_refs ?c" by blast
  from r h7 h5 h6 have c7: "20 \<notin> call_refs ?d" by blast
  from c1 c2 c3 c4 h1 h2' c5' c5(2) h3 h4 h5 h6 h8 c6 h7 c7 show ?thesis
    by - (intro conjI; assumption)
qed

end
